theory Spec2Isabelle
  imports Main "HOL-Library.Multiset"
begin

section \<open>JavaScript values\<close>

text \<open>
  The scripts are TypeScript run by Node. A thrown exception (or a rejected promise that
  is awaited) is a value of \<open>jserror\<close>; a computation that can throw returns
  \<open>jserror + 'a\<close>, with \<open>Inl\<close> for the exception.
\<close>

datatype jserror = TypeError | RangeError | FirestoreError string

text \<open>
  Numbers. A JavaScript number is an IEEE 754 binary64 value. The finite numbers of the
  model are the integers among them (every time value is one); fractional numbers and the
  negative zero are outside the model. A double holds every integer of magnitude up to
  \<open>2 ^ 53\<close> exactly. Above that it keeps 53 significant bits, so the result of an
  operation is the exact result rounded to the nearest such value, ties to the even one,
  and an infinity from \<open>2 ^ 1024\<close> on.
\<close>

datatype jsnum = Fin int | PosInf | NegInf | NaN

definition maxSafe :: int where
  "maxSafe = 9007199254740992"

text \<open>The number of binary digits of a natural number.\<close>

fun bitLength :: "nat \<Rightarrow> nat" where
  "bitLength n = (if n = 0 then 0 else Suc (bitLength (n div 2)))"

declare bitLength.simps [simp del]

text \<open>
  The quotient \<open>num / den\<close> of two integers, \<open>0 \<le> num\<close> and \<open>0 < den\<close>, rounded to the
  nearest integer, a tie to the even one.
\<close>

definition roundHalfEven :: "int \<Rightarrow> int \<Rightarrow> int" where
  "roundHalfEven num den =
     (if 2 * (num mod den) < den then num div den
      else if den < 2 * (num mod den) then num div den + 1
      else if even (num div den) then num div den
      else num div den + 1)"

text \<open>The number of sign \<open>s\<close> and magnitude \<open>v\<close>, an infinity when \<open>v\<close> overflows.\<close>

definition finOrInf :: "int \<Rightarrow> int \<Rightarrow> jsnum" where
  "finOrInf s v = (if 2 ^ 1024 \<le> v then (if s < 0 then NegInf else PosInf) else Fin (s * v))"

text \<open>
  The double nearest to the integer \<open>n\<close>: \<open>n\<close> itself up to \<open>2 ^ 53\<close>; above, with
  \<open>k\<close> the number of binary digits beyond 53, the multiple of \<open>2 ^ k\<close> nearest to it.
\<close>

definition roundDouble :: "int \<Rightarrow> jsnum" where
  "roundDouble n =
     (if \<bar>n\<bar> \<le> maxSafe then Fin n
      else finOrInf (sgn n)
             (roundHalfEven \<bar>n\<bar> (2 ^ (bitLength (nat \<bar>n\<bar>) - 53))
                * 2 ^ (bitLength (nat \<bar>n\<bar>) - 53)))"

text \<open>
  \<open>Math.floor(a / c)\<close> for integers \<open>a\<close> and \<open>0 < c \<le> 2 ^ 53\<close>. The division rounds the
  quotient to 53 significant bits before the floor is taken. Up to \<open>\<bar>a\<bar> = 2 ^ 53\<close> the
  floor is that of the exact quotient: an exact quotient that is an integer is returned
  as it is, and any other lies at least \<open>1 / c\<close> away from the integers around it, while
  the rounding moves it by less. Above, with \<open>2 ^ k\<close> the unit in the last place of the
  quotient (\<open>k\<close> may be negative), the quotient is rounded to a multiple of \<open>2 ^ k\<close>
  first.
\<close>

definition floorQuotBig :: "int \<Rightarrow> int \<Rightarrow> int \<Rightarrow> jsnum" where
  "floorQuotBig a c k =
     (if 0 \<le> k
      then finOrInf (sgn a) (roundHalfEven \<bar>a\<bar> (c * 2 ^ nat k) * 2 ^ nat k)
      else Fin ((sgn a * roundHalfEven (\<bar>a\<bar> * 2 ^ nat (- k)) c) div 2 ^ nat (- k)))"

definition floorQuot :: "int \<Rightarrow> int \<Rightarrow> jsnum" where
  "floorQuot a c =
     (if \<bar>a\<bar> \<le> maxSafe then Fin (a div c)
      else floorQuotBig a c (int (bitLength (nat (\<bar>a\<bar> div c))) - 53))"

fun js_add :: "jsnum \<Rightarrow> jsnum \<Rightarrow> jsnum" where
  "js_add (Fin a) (Fin b) = roundDouble (a + b)"
| "js_add NaN _ = NaN"
| "js_add _ NaN = NaN"
| "js_add PosInf NegInf = NaN"
| "js_add NegInf PosInf = NaN"
| "js_add PosInf _ = PosInf"
| "js_add NegInf _ = NegInf"
| "js_add (Fin a) PosInf = PosInf"
| "js_add (Fin a) NegInf = NegInf"

fun js_neg :: "jsnum \<Rightarrow> jsnum" where
  "js_neg (Fin a) = Fin (- a)"
| "js_neg PosInf = NegInf"
| "js_neg NegInf = PosInf"
| "js_neg NaN = NaN"

definition js_sub :: "jsnum \<Rightarrow> jsnum \<Rightarrow> jsnum" where
  "js_sub a b = js_add a (js_neg b)"

text \<open>\<open>x * c\<close> for a positive integer constant \<open>c\<close>.\<close>

fun js_mul_const :: "jsnum \<Rightarrow> int \<Rightarrow> jsnum" where
  "js_mul_const (Fin a) c = roundDouble (a * c)"
| "js_mul_const x c = x"

text \<open>\<open>Math.floor(x / c)\<close> for a positive integer constant \<open>c\<close> of at most \<open>2 ^ 53\<close>.\<close>

fun js_floor_div_const :: "jsnum \<Rightarrow> int \<Rightarrow> jsnum" where
  "js_floor_div_const (Fin a) c = floorQuot a c"
| "js_floor_div_const x c = x"

text \<open>
  A \<open>Date\<close> object holds a time value: an integer number of milliseconds since the
  epoch, of magnitude at most \<open>8.64e15\<close>, or \<open>NaN\<close> (an "Invalid Date").
\<close>

datatype jsdate = InvalidDate | DateAt int

definition maxTime :: int where
  "maxTime = 8640000000000000"

fun validDate :: "jsdate \<Rightarrow> bool" where
  "validDate InvalidDate = False"
| "validDate (DateAt t) = (\<bar>t\<bar> \<le> maxTime)"

text \<open>\<open>TimeClip\<close> of ECMAScript, and \<open>new Date(number)\<close>.\<close>

fun TimeClip :: "jsnum \<Rightarrow> jsnum" where
  "TimeClip (Fin t) = (if \<bar>t\<bar> > maxTime then NaN else Fin t)"
| "TimeClip x = NaN"

definition newDate :: "jsnum \<Rightarrow> jsdate" where
  "newDate n = (case TimeClip n of Fin t \<Rightarrow> DateAt t | _ \<Rightarrow> InvalidDate)"

fun getTime :: "jsdate \<Rightarrow> jsnum" where
  "getTime InvalidDate = NaN"
| "getTime (DateAt t) = Fin t"

fun js_isNaN :: "jsnum \<Rightarrow> bool" where
  "js_isNaN NaN = True"
| "js_isNaN x = False"

text \<open>
  Values. An object is the list of its own properties; a function value \<open>JFn d\<close> is a
  method of the declared type \<open>() => Date\<close>, given by the \<open>Date\<close> a call returns (the
  \<open>toDate\<close> of a Firestore \<open>Timestamp\<close>). Symbols, big integers, accessor properties and
  methods that throw are outside the model.
\<close>

datatype jsval =
    JUndefined
  | JNull
  | JBool bool
  | JNum jsnum
  | JStr string
  | JDate jsdate
  | JArr "jsval list"
  | JObj "(string \<times> jsval) list"
  | JFn jsdate

fun typeof :: "jsval \<Rightarrow> string" where
  "typeof JUndefined = ''undefined''"
| "typeof JNull = ''object''"
| "typeof (JBool b) = ''boolean''"
| "typeof (JNum n) = ''number''"
| "typeof (JStr s) = ''string''"
| "typeof (JDate d) = ''object''"
| "typeof (JArr vs) = ''object''"
| "typeof (JObj fs) = ''object''"
| "typeof (JFn d) = ''function''"

fun truthy :: "jsval \<Rightarrow> bool" where
  "truthy JUndefined = False"
| "truthy JNull = False"
| "truthy (JBool b) = b"
| "truthy (JNum n) = (n \<noteq> NaN \<and> n \<noteq> Fin 0)"
| "truthy (JStr s) = (s \<noteq> [])"
| "truthy v = True"

text \<open>
  Reading a property \<open>v.k\<close>. It throws a \<open>TypeError\<close> on \<open>null\<close> and \<open>undefined\<close>.
  The property names the scripts read on data (\<open>toDate\<close>, \<open>seconds\<close>, \<open>nanoseconds\<close>,
  the timestamp fields, \<open>email\<close>, \<open>playerId\<close>) are defined on no primitive, \<open>Date\<close>,
  array or function, so they read as \<open>undefined\<close> there.
\<close>

fun getProp :: "jsval \<Rightarrow> string \<Rightarrow> jserror + jsval" where
  "getProp JUndefined k = Inl TypeError"
| "getProp JNull k = Inl TypeError"
| "getProp (JObj fs) k = Inr (case map_of fs k of None \<Rightarrow> JUndefined | Some v \<Rightarrow> v)"
| "getProp v k = Inr JUndefined"

text \<open>Sequencing of computations that can throw.\<close>

fun bindE :: "jserror + 'a \<Rightarrow> ('a \<Rightarrow> jserror + 'b) \<Rightarrow> jserror + 'b" where
  "bindE (Inl e) f = Inl e"
| "bindE (Inr x) f = f x"

section \<open>The timestamp normalizer (index.ts)\<close>

text \<open>
  \<^verbatim>\<open>return v && typeof v === "object" && typeof v.toDate === "function"\<close>,
  read as a condition.
\<close>

definition isFSTimestampMethod :: "jsval \<Rightarrow> jserror + bool" where
  "isFSTimestampMethod v =
     (if \<not> truthy v then Inr False
      else if typeof v \<noteq> ''object'' then Inr False
      else bindE (getProp v ''toDate'') (\<lambda>p. Inr (typeof p = ''function'')))"

definition isFSTimestampPojo :: "jsval \<Rightarrow> jserror + bool" where
  "isFSTimestampPojo v =
     (if \<not> truthy v then Inr False
      else if typeof v \<noteq> ''object'' then Inr False
      else bindE (getProp v ''seconds'') (\<lambda>s.
        if typeof s \<noteq> ''number'' then Inr False
        else bindE (getProp v ''nanoseconds'') (\<lambda>n. Inr (typeof n = ''number''))))"

text \<open>The call \<open>v.k()\<close>: a \<open>TypeError\<close> when the property is not a function.\<close>

definition callMethod :: "jsval \<Rightarrow> string \<Rightarrow> jserror + jsdate" where
  "callMethod v k =
     bindE (getProp v k) (\<lambda>p. case p of JFn d \<Rightarrow> Inr d | _ \<Rightarrow> Inl TypeError)"

text \<open>The number held by a value whose \<open>typeof\<close> is \<open>number\<close>.\<close>

fun numOf :: "jsval \<Rightarrow> jsnum" where
  "numOf (JNum n) = n"
| "numOf v = NaN"

text \<open>\<open>isNaN(d.getTime()) ? null : d\<close>; \<open>None\<close> is \<open>null\<close>.\<close>

definition nullIfInvalid :: "jsdate \<Rightarrow> jsdate option" where
  "nullIfInvalid d = (if js_isNaN (getTime d) then None else Some d)"

text \<open>
  \<open>toDateStrict\<close>. The parameter \<open>parse\<close> is \<open>Date.parse\<close>, the time value the engine
  reads from a string (\<open>NaN\<close> when it reads none); \<open>new Date(string)\<close> clips it.
\<close>

definition toDateStrict :: "(string \<Rightarrow> jsnum) \<Rightarrow> jsval \<Rightarrow> jserror + jsdate option" where
  "toDateStrict parse v =
     (if \<not> truthy v \<and> v \<noteq> JNum (Fin 0) then Inr None
      else bindE (isFSTimestampMethod v) (\<lambda>m.
        if m then bindE (callMethod v ''toDate'') (\<lambda>d. Inr (Some d))
        else bindE (isFSTimestampPojo v) (\<lambda>p.
          if p then
            bindE (getProp v ''seconds'') (\<lambda>s.
            bindE (getProp v ''nanoseconds'') (\<lambda>n.
              let ms = js_add (js_mul_const (numOf s) 1000)
                              (js_floor_div_const (numOf n) 1000000);
                  d = newDate ms
              in Inr (nullIfInvalid d)))
          else (case v of
              JDate d \<Rightarrow> Inr (Some d)
            | JStr s \<Rightarrow> Inr (nullIfInvalid (newDate (parse s)))
            | JNum n \<Rightarrow> Inr (nullIfInvalid (newDate n))
            | _ \<Rightarrow> Inr None))))"

text \<open>A \<open>Date.parse\<close> for examples: it reads two ISO strings and nothing else.\<close>

definition sampleParse :: "string \<Rightarrow> jsnum" where
  "sampleParse s =
     (if s = ''1970-01-01T00:00:00.000Z'' then Fin 0
      else if s = ''2025-10-04T12:00:00.000Z'' then Fin 1759579200000
      else NaN)"

section \<open>Calendar arithmetic: \<open>Date.UTC\<close>\<close>

text \<open>
  \<open>Date.UTC(year, month, date, hours, minutes, seconds, ms)\<close> of ECMAScript on integers:
  \<open>MakeFullYear\<close>, \<open>MakeDay\<close>, \<open>MakeTime\<close>, \<open>MakeDate\<close> and \<open>TimeClip\<close>. Months count
  from 0; a month or a day out of its range rolls over into the neighbouring months. An
  engine may also answer \<open>NaN\<close> when the year or the month alone is far out of range
  although the day brings the date back into range; the model computes the date there.
\<close>

definition msPerDay :: int where
  "msPerDay = 86400000"

definition DayFromYear :: "int \<Rightarrow> int" where
  "DayFromYear y =
     365 * (y - 1970) + (y - 1969) div 4 - (y - 1901) div 100 + (y - 1601) div 400"

definition InLeapYear :: "int \<Rightarrow> bool" where
  "InLeapYear y = (y mod 4 = 0 \<and> (y mod 100 \<noteq> 0 \<or> y mod 400 = 0))"

text \<open>The day within the year on which month \<open>mn\<close> (0 to 11) starts.\<close>

definition monthStart :: "int \<Rightarrow> int \<Rightarrow> int" where
  "monthStart y mn =
     ([0, 31, 59, 90, 120, 151, 181, 212, 243, 273, 304, 334] ! nat mn)
       + (if InLeapYear y \<and> 2 \<le> mn then 1 else 0)"

definition MakeFullYear :: "int \<Rightarrow> int" where
  "MakeFullYear y = (if 0 \<le> y \<and> y \<le> 99 then 1900 + y else y)"

definition MakeDay :: "int \<Rightarrow> int \<Rightarrow> int \<Rightarrow> int" where
  "MakeDay year month date =
     (let ym = year + month div 12; mn = month mod 12
      in DayFromYear ym + monthStart ym mn + date - 1)"

definition MakeTime :: "int \<Rightarrow> int \<Rightarrow> int \<Rightarrow> int \<Rightarrow> int" where
  "MakeTime hour minute sec ms = hour * 3600000 + minute * 60000 + sec * 1000 + ms"

definition MakeDate :: "int \<Rightarrow> int \<Rightarrow> int" where
  "MakeDate day time = day * msPerDay + time"

definition Date_UTC :: "int \<Rightarrow> int \<Rightarrow> int \<Rightarrow> int \<Rightarrow> int \<Rightarrow> int \<Rightarrow> int \<Rightarrow> jsnum" where
  "Date_UTC year month date hours minutes seconds ms =
     TimeClip (Fin (MakeDate (MakeDay (MakeFullYear year) month date)
                             (MakeTime hours minutes seconds ms)))"

section \<open>The local-day window (stats-today.ts, gameStats-today.ts)\<close>

text \<open>
  The time zone data of the platform (\<open>Intl.DateTimeFormat\<close>) is a parameter: for a zone
  name it knows, the wall-clock fields that \<open>formatToParts\<close> prints for an instant (given
  in milliseconds since the epoch), read back with \<open>Number\<close>; \<open>None\<close> for a name it does
  not know, where the constructor throws a \<open>RangeError\<close>.
\<close>

record wallclock =
  wc_year :: int
  wc_month :: int
  wc_day :: int
  wc_hour :: int
  wc_minute :: int
  wc_second :: int

type_synonym tzdata = "string \<Rightarrow> (int \<Rightarrow> wallclock) option"

text \<open>\<open>tzOffsetMsAt\<close>, the same in both scripts. Formatting an invalid date throws.\<close>

definition tzOffsetMsAt :: "tzdata \<Rightarrow> jsdate \<Rightarrow> string \<Rightarrow> jserror + jsnum" where
  "tzOffsetMsAt tzd date timeZone =
     (case tzd timeZone of
        None \<Rightarrow> Inl RangeError
      | Some formatToParts \<Rightarrow>
          (case date of
             InvalidDate \<Rightarrow> Inl RangeError
           | DateAt t \<Rightarrow>
               (let p = formatToParts t;
                    wallUTC = Date_UTC (wc_year p) (wc_month p - 1) (wc_day p)
                                       (wc_hour p) (wc_minute p) (wc_second p) 0
                in Inr (js_sub wallUTC (getTime date)))))"

record dayWindow =
  w_start :: jsdate
  w_end :: jsdate

text \<open>
  \<open>dayRangeUTC\<close> of gameStats-today.ts. The last argument is \<open>None\<close> when the caller
  leaves \<open>timeZone\<close> out, and the default applies.
\<close>

definition gameStats_dayRangeUTC ::
    "tzdata \<Rightarrow> int \<Rightarrow> int \<Rightarrow> int \<Rightarrow> string option \<Rightarrow> jserror + dayWindow" where
  "gameStats_dayRangeUTC tzd year month1Based day timeZoneArg =
     (let timeZone = (case timeZoneArg of None \<Rightarrow> ''America/Indiana/Indianapolis'' | Some z \<Rightarrow> z);
          probe = newDate (Date_UTC year (month1Based - 1) day 12 0 0 0)
      in bindE (tzOffsetMsAt tzd probe timeZone) (\<lambda>offsetMs.
           let localMidnightUTCms = js_sub (Date_UTC year (month1Based - 1) day 0 0 0 0) offsetMs;
               nextMidnightUTCms = js_sub (Date_UTC year (month1Based - 1) (day + 1) 0 0 0 0) offsetMs
           in Inr \<lparr>w_start = newDate localMidnightUTCms, w_end = newDate nextMidnightUTCms\<rparr>))"

text \<open>
  \<open>dayRangeUTC\<close> of stats-today.ts: the parameter \<open>timeZone\<close> (default
  \<open>"America/Indiana/Indiana polis"\<close>) is bound and never read; the body uses its own
  constant \<open>tz\<close>.
\<close>

definition stats_dayRangeUTC ::
    "tzdata \<Rightarrow> int \<Rightarrow> int \<Rightarrow> int \<Rightarrow> string option \<Rightarrow> jserror + dayWindow" where
  "stats_dayRangeUTC tzd year month1Based day timeZoneArg =
     (let timeZone = (case timeZoneArg of None \<Rightarrow> ''America/Indiana/Indiana polis'' | Some z \<Rightarrow> z);
          tz = ''America/Indiana/Indianapolis'';
          probe = newDate (Date_UTC year (month1Based - 1) day 12 0 0 0)
      in bindE (tzOffsetMsAt tzd probe tz) (\<lambda>offsetMs.
           let localMidnightUTCms = js_sub (Date_UTC year (month1Based - 1) day 0 0 0 0) offsetMs;
               nextMidnightUTCms = js_sub (Date_UTC year (month1Based - 1) (day + 1) 0 0 0 0) offsetMs
           in Inr \<lparr>w_start = newDate localMidnightUTCms, w_end = newDate nextMidnightUTCms\<rparr>))"

subsection \<open>Time zone data for examples\<close>

text \<open>
  The proleptic Gregorian calendar fields of an instant, as a formatter prints them for
  a zone at offset 0.
\<close>

definition civilOfMonth :: "int \<Rightarrow> int \<Rightarrow> int \<Rightarrow> int \<times> int \<times> int" where
  "civilOfMonth y doy mp =
     (y + (if mp < 10 then 0 else 1),
      (if mp < 10 then mp + 3 else mp - 9),
      doy - (153 * mp + 2) div 5 + 1)"

definition civilOfYear :: "int \<Rightarrow> int \<Rightarrow> int \<Rightarrow> int \<times> int \<times> int" where
  "civilOfYear era doe yoe =
     civilOfMonth (yoe + era * 400)
       (doe - (365 * yoe + yoe div 4 - yoe div 100))
       ((5 * (doe - (365 * yoe + yoe div 4 - yoe div 100)) + 2) div 153)"

definition civilOfEra :: "int \<Rightarrow> int \<Rightarrow> int \<times> int \<times> int" where
  "civilOfEra era doe =
     civilOfYear era doe ((doe - doe div 1460 + doe div 36524 - doe div 146096) div 365)"

definition civilFromDays :: "int \<Rightarrow> int \<times> int \<times> int" where
  "civilFromDays days = civilOfEra ((days + 719468) div 146097) ((days + 719468) mod 146097)"

definition wallClockOf :: "int \<times> int \<times> int \<Rightarrow> int \<Rightarrow> wallclock" where
  "wallClockOf ymd sod =
     \<lparr>wc_year = fst ymd, wc_month = fst (snd ymd), wc_day = snd (snd ymd),
      wc_hour = sod div 3600, wc_minute = (sod mod 3600) div 60, wc_second = sod mod 60\<rparr>"

definition wallClockUTC :: "int \<Rightarrow> wallclock" where
  "wallClockUTC t =
     wallClockOf (civilFromDays ((t div 1000) div 86400)) ((t div 1000) mod 86400)"

text \<open>
  America/Indiana/Indianapolis in 2025 (IANA time zone database): daylight time, four hours
  behind UTC, from 2025-03-09T07:00:00Z until 2025-11-02T06:00:00Z; standard time, five
  hours behind, before and after. Only instants of 2025 are looked up in the examples.
\<close>

definition indianapolisOffset2025 :: "int \<Rightarrow> int" where
  "indianapolisOffset2025 t =
     (if 1741503600000 \<le> t \<and> t < 1762063200000 then - 14400000 else - 18000000)"

definition sampleZones :: tzdata where
  "sampleZones z =
     (if z = ''America/Indiana/Indianapolis''
        then Some (\<lambda>t. wallClockUTC (t + indianapolisOffset2025 t))
      else if z = ''Etc/GMT+5'' then Some (\<lambda>t. wallClockUTC (t - 18000000))
      else None)"

text \<open>The window of 4 October 2025 in that zone: from 04:00 UTC to 04:00 UTC.\<close>

definition window_oct4 :: dayWindow where
  "window_oct4 = \<lparr>w_start = DateAt 1759550400000, w_end = DateAt 1759636800000\<rparr>"

section \<open>Documents and the document store\<close>

text \<open>
  A document as the scripts hold it, \<open>{ id: d.id, ...d.data() }\<close>: the list of its
  fields. A missing field reads as \<open>undefined\<close>.
\<close>

type_synonym doc = "(string \<times> jsval) list"

definition field :: "doc \<Rightarrow> string \<Rightarrow> jsval" where
  "field d k = (case map_of d k of None \<Rightarrow> JUndefined | Some v \<Rightarrow> v)"

text \<open>
  A query is a collection with \<open>where\<close> constraints (field, operator, value); the values
  are the \<open>Timestamp\<close>s of the window's bounds, written as the dates they come from. The
  store is a parameter: \<open>getDocs\<close> answers a query with the documents of the snapshot, or
  rejects; \<open>getDoc\<close> answers a lookup in \<open>users\<close> by identifier with the document's data,
  with \<open>None\<close> when the document does not exist, or rejects.
\<close>

datatype fsquery = Query string "(string \<times> string \<times> jsdate) list"

type_synonym getDocs = "fsquery \<Rightarrow> jserror + doc list"

type_synonym getDoc = "jsval \<Rightarrow> jserror + doc option"

text \<open>Comparison of numbers; every comparison with \<open>NaN\<close> is false.\<close>

fun js_gt :: "jsnum \<Rightarrow> jsnum \<Rightarrow> bool" where
  "js_gt (Fin a) (Fin b) = (a > b)"
| "js_gt NaN _ = False"
| "js_gt _ NaN = False"
| "js_gt PosInf PosInf = False"
| "js_gt PosInf _ = True"
| "js_gt NegInf _ = False"
| "js_gt (Fin a) PosInf = False"
| "js_gt (Fin a) NegInf = True"

definition js_lt :: "jsnum \<Rightarrow> jsnum \<Rightarrow> bool" where
  "js_lt a b = js_gt b a"

definition js_ge :: "jsnum \<Rightarrow> jsnum \<Rightarrow> bool" where
  "js_ge a b = (js_gt a b \<or> (a = b \<and> a \<noteq> NaN))"

text \<open>\<open>a ?? b\<close>\<close>

definition nullish :: "jsval \<Rightarrow> jsval \<Rightarrow> jsval" where
  "nullish a b = (if a = JUndefined \<or> a = JNull then b else a)"

text \<open>\<open>v?.k\<close>\<close>

definition getPropOpt :: "jsval \<Rightarrow> string \<Rightarrow> jserror + jsval" where
  "getPropOpt v k = (if v = JUndefined \<or> v = JNull then Inr JUndefined else getProp v k)"

text \<open>
  \<open>Number(v)\<close>. On a value that is not a number the conversion of the platform is a
  parameter \<open>toNum\<close> (it reads strings, and objects through their primitive values).
\<close>

definition ToNumber :: "(jsval \<Rightarrow> jsnum) \<Rightarrow> jsval \<Rightarrow> jsnum" where
  "ToNumber toNum v = (case v of JNum n \<Rightarrow> n | _ \<Rightarrow> toNum v)"

section \<open>User email lookup with cache (stats-today.ts, gameStats-today.ts)\<close>

text \<open>
  \<open>getUserEmail\<close>, with the same behaviour in both scripts. The cache is the \<open>Map\<close>
  \<open>emailCache\<close>, passed in and returned. A lookup that rejects gives \<open>"(error)"\<close> and
  leaves the cache as it is.
\<close>

definition getUserEmail ::
    "getDoc \<Rightarrow> (jsval \<rightharpoonup> jsval) \<Rightarrow> jsval \<Rightarrow> jsval \<times> (jsval \<rightharpoonup> jsval)" where
  "getUserEmail getDoc emailCache playerId =
     (if \<not> truthy playerId then (JStr ''(no playerId)'', emailCache)
      else case emailCache playerId of
          Some email \<Rightarrow> (email, emailCache)
        | None \<Rightarrow>
            (case getDoc playerId of
               Inl e \<Rightarrow> (JStr ''(error)'', emailCache)
             | Inr snap \<Rightarrow>
                 (let email = (case snap of
                                 Some data \<Rightarrow> nullish (field data ''email'') (JStr ''(no email)'')
                               | None \<Rightarrow> JStr ''(not found)'')
                  in (email, emailCache(playerId \<mapsto> email)))))"

section \<open>The gameStats report (gameStats-today.ts)\<close>

definition TIME_FIELDS :: "string list" where
  "TIME_FIELDS = [''submittedAt'', ''updatedAt'', ''lastUpdatedAt'', ''createdAt'', ''gameDate'']"

text \<open>
  \<^verbatim>\<open>query(collection(db, "gameStats"), where(f, ">=", startTs), where(f, "<", endTs))\<close>
\<close>

definition rangeQuery :: "string \<Rightarrow> jsdate \<Rightarrow> jsdate \<Rightarrow> fsquery" where
  "rangeQuery f startTs endTs = Query ''gameStats'' [(f, ''>='', startTs), (f, ''<'', endTs)]"

text \<open>
  The loop over the candidate fields. It returns \<open>usedField\<close>, \<open>docs\<close> and the queries
  it has sent to the store, in order. A query that rejects is ignored; the first one that
  answers with a document ends the loop.
\<close>

fun probeFields ::
    "getDocs \<Rightarrow> jsdate \<Rightarrow> jsdate \<Rightarrow> string list \<Rightarrow> string option \<times> doc list \<times> fsquery list" where
  "probeFields getDocs startTs endTs [] = (None, [], [])"
| "probeFields getDocs startTs endTs (f # fs) =
     (let qStats = rangeQuery f startTs endTs in
      case getDocs qStats of
        Inr snap \<Rightarrow>
          if snap \<noteq> [] then (Some f, snap, [qStats])
          else (case probeFields getDocs startTs endTs fs of
                  (usedField, docs, sent) \<Rightarrow> (usedField, docs, qStats # sent))
      | Inl e \<Rightarrow>
          (case probeFields getDocs startTs endTs fs of
             (usedField, docs, sent) \<Rightarrow> (usedField, docs, qStats # sent)))"

text \<open>
  The conversion written out in the client-side filter (not \<open>toDateStrict\<close>): a truthy
  \<open>toDate\<close> is called, whatever it is; a numeric \<open>seconds\<close> makes a date that is not
  checked; a string or a number makes a date or \<open>null\<close>.
\<close>

definition clientDate ::
    "(string \<Rightarrow> jsnum) \<Rightarrow> (jsval \<Rightarrow> jsnum) \<Rightarrow> jsval \<Rightarrow> jserror + jsdate option" where
  "clientDate parse toNum v =
     bindE (getPropOpt v ''toDate'') (\<lambda>td.
       if truthy td then bindE (callMethod v ''toDate'') (\<lambda>d. Inr (Some d))
       else bindE (getPropOpt v ''seconds'') (\<lambda>s.
         if typeof s = ''number'' then
           bindE (getProp v ''seconds'') (\<lambda>sec.
           bindE (getProp v ''nanoseconds'') (\<lambda>nanos.
             Inr (Some (newDate
               (js_add (js_mul_const (numOf sec) 1000)
                       (js_floor_div_const (ToNumber toNum (nullish nanos (JNum (Fin 0))))
                                           1000000))))))
         else (case v of
             JDate d \<Rightarrow> Inr (Some d)
           | JStr str \<Rightarrow> Inr (nullIfInvalid (newDate (parse str)))
           | JNum n \<Rightarrow> Inr (nullIfInvalid (newDate n))
           | _ \<Rightarrow> Inr None)))"

text \<open>\<open>dt && dt >= start && dt < end\<close>\<close>

definition inWindow :: "jsdate option \<Rightarrow> jsdate \<Rightarrow> jsdate \<Rightarrow> bool" where
  "inWindow dt start end =
     (case dt of
        None \<Rightarrow> False
      | Some d \<Rightarrow> js_ge (getTime d) (getTime start) \<and> js_lt (getTime d) (getTime end))"

text \<open>
  The filter's callback on one document: \<open>Some f\<close> when it returns \<open>true\<close> after setting
  \<open>usedField = f\<close>, \<open>None\<close> when it returns \<open>false\<close>.
\<close>

fun scanFields ::
    "(string \<Rightarrow> jsnum) \<Rightarrow> (jsval \<Rightarrow> jsnum) \<Rightarrow> jsdate \<Rightarrow> jsdate \<Rightarrow> doc \<Rightarrow> string list
       \<Rightarrow> jserror + string option" where
  "scanFields parse toNum start end d [] = Inr None"
| "scanFields parse toNum start end d (f # fs) =
     (let v = field d f in
      if \<not> truthy v then scanFields parse toNum start end d fs
      else bindE (clientDate parse toNum v) (\<lambda>dt.
        if inWindow dt start end then Inr (Some f)
        else scanFields parse toNum start end d fs))"

text \<open>\<open>all.filter(...)\<close>, with the variable \<open>usedField\<close> it assigns passed along.\<close>

fun filterInRange ::
    "(string \<Rightarrow> jsnum) \<Rightarrow> (jsval \<Rightarrow> jsnum) \<Rightarrow> jsdate \<Rightarrow> jsdate \<Rightarrow> string list
       \<Rightarrow> doc list \<Rightarrow> string option \<Rightarrow> jserror + (doc list \<times> string option)" where
  "filterInRange parse toNum start end cands [] usedField = Inr ([], usedField)"
| "filterInRange parse toNum start end cands (d # ds) usedField =
     bindE (scanFields parse toNum start end d cands) (\<lambda>r.
       case r of
         Some f \<Rightarrow>
           bindE (filterInRange parse toNum start end cands ds (Some f)) (\<lambda>(inRange, u).
             Inr (d # inRange, u))
       | None \<Rightarrow> filterInRange parse toNum start end cands ds usedField)"

text \<open>
  The selection of the documents: the loop over the candidates, then, when it found no
  document, the fetch of the whole collection and the client-side filter. \<open>Inl e\<close> is the
  \<open>catch\<close> around the fallback, which prints \<open>e\<close> and calls \<open>process.exit(1)\<close>.
\<close>

definition selectDocs ::
    "(string \<Rightarrow> jsnum) \<Rightarrow> (jsval \<Rightarrow> jsnum) \<Rightarrow> getDocs \<Rightarrow> jsdate \<Rightarrow> jsdate \<Rightarrow> string list
       \<Rightarrow> jserror + (string option \<times> doc list \<times> fsquery list)" where
  "selectDocs parse toNum getDocs start end cands =
     (case probeFields getDocs start end cands of
        (usedField, docs, sent) \<Rightarrow>
          if docs = [] then
            bindE (getDocs (Query ''gameStats'' [])) (\<lambda>all.
            bindE (filterInRange parse toNum start end cands all usedField) (\<lambda>(inRange, u).
              Inr (u, if inRange \<noteq> [] then inRange else all, sent @ [Query ''gameStats'' []])))
          else Inr (usedField, docs, sent))"

text \<open>The rows of the table: \<open>email\<close>, \<open>totalPoints\<close>, \<open>totalPredictions\<close>.\<close>

record row =
  row_email :: jsval
  row_totalPoints :: jsnum
  row_totalPredictions :: jsnum

text \<open>\<open>typeof x === "number" ? x : Number(x ?? 0) || 0\<close>\<close>

definition numberOrZero :: "(jsval \<Rightarrow> jsnum) \<Rightarrow> jsval \<Rightarrow> jsnum" where
  "numberOrZero toNum x =
     (if typeof x = ''number'' then numOf x
      else (let n = ToNumber toNum (nullish x (JNum (Fin 0)))
            in if truthy (JNum n) then n else Fin 0))"

fun buildRows ::
    "(jsval \<Rightarrow> jsnum) \<Rightarrow> getDoc \<Rightarrow> (jsval \<rightharpoonup> jsval) \<Rightarrow> doc list \<Rightarrow> row list" where
  "buildRows toNum getDoc emailCache [] = []"
| "buildRows toNum getDoc emailCache (d # ds) =
     (let (email, cache') =
            (if \<not> truthy (field d ''email'') \<and> truthy (field d ''playerId'')
             then getUserEmail getDoc emailCache (field d ''playerId'')
             else (field d ''email'', emailCache))
      in \<lparr>row_email = nullish email (JStr ''(no email)''),
          row_totalPoints = numberOrZero toNum (field d ''totalPoints''),
          row_totalPredictions = numberOrZero toNum (field d ''totalPredictions'')\<rparr>
         # buildRows toNum getDoc cache' ds)"

text \<open>
  \<open>printTable\<close>. With no rows it prints one line and returns. Otherwise it sorts the rows
  (\<open>totalPoints\<close> descending, then \<open>a.email.localeCompare(b.email)\<close>), computes the widths
  of the columns and prints the lines, all with functions of the platform:
  \<open>Array.prototype.sort\<close>, which chooses the pairs it passes to the comparator,
  \<open>String.prototype.localeCompare\<close>, \<open>padEnd\<close> and \<open>repeat\<close>, and \<open>console.log\<close>. They are
  the parameter \<open>display\<close>: on the rows, \<open>None\<close> when all of them return and \<open>Some e\<close>
  when one throws \<open>e\<close>. (An email that is not a string has no \<open>localeCompare\<close> and no
  \<open>padEnd\<close>: calling it is a \<open>TypeError\<close>.)
\<close>

type_synonym 'a display = "'a list \<Rightarrow> jserror option"

definition printTable :: "row display \<Rightarrow> row list \<Rightarrow> jserror option" where
  "printTable display rows = (if rows = [] then None else display rows)"

text \<open>
  How a script ends: \<open>process.exit(code)\<close>; an exception nobody catches, which rejects
  the promise of \<open>main\<close> (Node then prints it and ends the process with a status that is
  not zero); or the end of \<open>main\<close>, with what it had to print.
\<close>

datatype 'a outcome = Exit int | Uncaught jserror | Completed 'a

record gameStatsReport =
  rep_usedField :: "string option"
  rep_docs :: "doc list"
  rep_sent :: "fsquery list"
  rep_rows :: "row list"

text \<open>
  Both reporting scripts start alike. After \<open>dayRangeUTC\<close> the two dates are turned into
  Firestore timestamps, \<open>Timestamp.fromDate(start)\<close> and \<open>Timestamp.fromDate(end)\<close>, and the
  window is announced on the console with \<open>start.toISOString()\<close> and
  \<open>end.toISOString()\<close>. \<open>Timestamp.fromDate\<close> is the library's: the parameter \<open>fromDate\<close>
  gives the exception it throws on a date, if any (a timestamp is then held in a query
  as the date it was made from). \<open>toISOString\<close> throws a \<open>RangeError\<close> on an invalid date.
  \<open>announce\<close> is the exception of these four calls, if any.
\<close>

type_synonym fromDate = "jsdate \<Rightarrow> jserror option"

definition announce :: "fromDate \<Rightarrow> dayWindow \<Rightarrow> jserror option" where
  "announce fromDate w =
     (case fromDate (w_start w) of
        Some e \<Rightarrow> Some e
      | None \<Rightarrow>
          (case fromDate (w_end w) of
             Some e \<Rightarrow> Some e
           | None \<Rightarrow>
               if validDate (w_start w) \<and> validDate (w_end w) then None else Some RangeError))"

text \<open>
  The main function of gameStats-today.ts. The window is computed and announced outside
  any \<open>try\<close>; the \<open>catch\<close> around the fallback calls \<open>process.exit(1)\<close>; the rows are built
  and given to \<open>printTable\<close>, outside any \<open>try\<close> again. The text of the lines is not
  modelled.
\<close>

definition gameStats_main ::
    "tzdata \<Rightarrow> (string \<Rightarrow> jsnum) \<Rightarrow> (jsval \<Rightarrow> jsnum) \<Rightarrow> fromDate \<Rightarrow> row display \<Rightarrow> getDocs
       \<Rightarrow> getDoc \<Rightarrow> gameStatsReport outcome" where
  "gameStats_main tzd parse toNum fromDate display getDocs getDoc =
     (case gameStats_dayRangeUTC tzd 2025 10 4 (Some ''America/Indiana/Indianapolis'') of
        Inl e \<Rightarrow> Uncaught e
      | Inr w \<Rightarrow>
          (case announce fromDate w of
             Some e \<Rightarrow> Uncaught e
           | None \<Rightarrow>
               (case selectDocs parse toNum getDocs (w_start w) (w_end w) TIME_FIELDS of
                  Inl err \<Rightarrow> Exit 1
                | Inr (used, ds, qs) \<Rightarrow>
                    (case printTable display (buildRows toNum getDoc Map.empty ds) of
                       Some e \<Rightarrow> Uncaught e
                     | None \<Rightarrow>
                         Completed \<lparr>rep_usedField = used, rep_docs = ds, rep_sent = qs,
                                    rep_rows = buildRows toNum getDoc Map.empty ds\<rparr>))))"

section \<open>The guesses report (stats-today.ts)\<close>

text \<open>
  \<open>stats.set(email, entry)\<close>: a \<open>Map\<close> keeps its keys in the order in which they were
  first set. (Keys are compared by their contents.)
\<close>

fun mapSet :: "'k \<Rightarrow> 'v \<Rightarrow> ('k \<times> 'v) list \<Rightarrow> ('k \<times> 'v) list" where
  "mapSet k v [] = [(k, v)]"
| "mapSet k v (p # ps) = (if fst p = k then (k, v) # ps else p # mapSet k v ps)"

text \<open>
  The aggregation \<open>email -> { total, correct }\<close>; a guess is correct when
  \<open>Number(pointsAwarded ?? 0)\<close> is neither \<open>NaN\<close> nor 0.
\<close>

fun aggregate ::
    "(jsval \<Rightarrow> jsnum) \<Rightarrow> getDoc \<Rightarrow> (jsval \<rightharpoonup> jsval) \<Rightarrow> (jsval \<times> nat \<times> nat) list \<Rightarrow> doc list
       \<Rightarrow> (jsval \<times> nat \<times> nat) list" where
  "aggregate toNum getDoc emailCache stats [] = stats"
| "aggregate toNum getDoc emailCache stats (data # rest) =
     (let (email, cache') = getUserEmail getDoc emailCache (field data ''playerId'');
          (total, correct) = (case map_of stats email of None \<Rightarrow> (0, 0) | Some entry \<Rightarrow> entry);
          pa = ToNumber toNum (nullish (field data ''pointsAwarded'') (JNum (Fin 0)));
          correct' = (if \<not> js_isNaN pa \<and> pa \<noteq> Fin 0 then correct + 1 else correct)
      in aggregate toNum getDoc cache' (mapSet email (total + 1, correct') stats) rest)"

text \<open>
  The entries of the map are sorted (\<open>total\<close> descending, then
  \<open>a[0].localeCompare(b[0])\<close> on the emails) and printed, one line each; with no entry the
  sort has nothing to compare and one line is printed. As in \<open>printTable\<close>, the sort, the
  comparison of the emails and the printing are the platform's, the parameter \<open>display\<close>.
\<close>

definition sortAndPrint ::
    "(jsval \<times> nat \<times> nat) display \<Rightarrow> (jsval \<times> nat \<times> nat) list \<Rightarrow> jserror option" where
  "sortAndPrint display rows = (if rows = [] then None else display rows)"

text \<open>
  The main function of stats-today.ts. The window is computed and announced as in
  gameStats-today.ts. The one query is on \<open>submittedAt\<close> in \<open>guesses\<close>; when it rejects,
  the script prints the error and calls \<open>process.exit(1)\<close>. The aggregation, the sort and
  the printing are outside any \<open>try\<close>.
\<close>

definition stats_main ::
    "tzdata \<Rightarrow> (jsval \<Rightarrow> jsnum) \<Rightarrow> fromDate \<Rightarrow> (jsval \<times> nat \<times> nat) display \<Rightarrow> getDocs
       \<Rightarrow> getDoc \<Rightarrow> (jsval \<times> nat \<times> nat) list outcome" where
  "stats_main tzd toNum fromDate display getDocs getDoc =
     (case stats_dayRangeUTC tzd 2025 10 4 (Some ''America/Indiana/Indianapolis'') of
        Inl e \<Rightarrow> Uncaught e
      | Inr w \<Rightarrow>
          (case announce fromDate w of
             Some e \<Rightarrow> Uncaught e
           | None \<Rightarrow>
               (case getDocs (Query ''guesses'' [(''submittedAt'', ''>='', w_start w),
                                                  (''submittedAt'', ''<'', w_end w)]) of
                  Inl err \<Rightarrow> Exit 1
                | Inr snap \<Rightarrow>
                    (case sortAndPrint display (aggregate toNum getDoc Map.empty [] snap) of
                       Some e \<Rightarrow> Uncaught e
                     | None \<Rightarrow> Completed (aggregate toNum getDoc Map.empty [] snap)))))"

section \<open>The watcher (index.ts)\<close>

text \<open>A filter whose callback can throw: the first exception ends it.\<close>

fun filterE :: "('a \<Rightarrow> jserror + bool) \<Rightarrow> 'a list \<Rightarrow> jserror + 'a list" where
  "filterE p [] = Inr []"
| "filterE p (x # xs) =
     bindE (p x) (\<lambda>b. bindE (filterE p xs) (\<lambda>ys. Inr (if b then x # ys else ys)))"

text \<open>
  The callback of the filter:
  \<^verbatim>\<open>dt && lastSeen && dt.getTime() > lastSeen.getTime()\<close>
\<close>

definition isFresh :: "(string \<Rightarrow> jsnum) \<Rightarrow> jsdate option \<Rightarrow> doc \<Rightarrow> jserror + bool" where
  "isFresh parse lastSeen d =
     bindE (toDateStrict parse (field d ''submittedAt'')) (\<lambda>dt.
       Inr (case dt of
              None \<Rightarrow> False
            | Some a \<Rightarrow> (case lastSeen of
                           None \<Rightarrow> False
                         | Some b \<Rightarrow> js_gt (getTime a) (getTime b))))"

text \<open>
  The key of the sort, \<open>toDateStrict(a.submittedAt)?.getTime() ?? 0\<close>. The sort runs on
  the documents the filter kept, which all have a valid date; on those the comparator
  \<open>da - dbt\<close> orders by this key, and \<open>Array.prototype.sort\<close> is stable.
\<close>

definition sortKey :: "(string \<Rightarrow> jsnum) \<Rightarrow> doc \<Rightarrow> int" where
  "sortKey parse d =
     (case toDateStrict parse (field d ''submittedAt'') of
        Inr (Some (DateAt t)) \<Rightarrow> t
      | _ \<Rightarrow> 0)"

text \<open>
  The initial load: the documents it prints and the value it leaves in \<open>lastSeen\<close>
  (\<open>None\<close> is \<open>null\<close>).
\<close>

definition initialLoad ::
    "(string \<Rightarrow> jsnum) \<Rightarrow> doc list \<Rightarrow> jserror + (doc list \<times> jsdate option)" where
  "initialLoad parse docs =
     (case docs of
        [] \<Rightarrow> Inr ([], None)
      | d0 # rest \<Rightarrow>
          bindE (toDateStrict parse (field d0 ''submittedAt'')) (\<lambda>t. Inr (docs, t)))"

text \<open>
  The callback given to \<open>onSnapshot\<close>, run on one snapshot from the value of \<open>lastSeen\<close>
  before it: the documents it prints, in order, and the value of \<open>lastSeen\<close> after it.
  One run is taken as a whole; runs that interleave at an \<open>await\<close> are not modelled.
\<close>

definition onSnapshot_callback ::
    "(string \<Rightarrow> jsnum) \<Rightarrow> jsdate option \<Rightarrow> doc list \<Rightarrow> jserror + (doc list \<times> jsdate option)" where
  "onSnapshot_callback parse lastSeen nowDocs =
     (case nowDocs of
        [] \<Rightarrow> Inr ([], lastSeen)
      | d0 # rest \<Rightarrow>
          bindE (toDateStrict parse (field d0 ''submittedAt'')) (\<lambda>newestTime.
            if lastSeen = None
            then Inr ([], (case newestTime of None \<Rightarrow> lastSeen | Some t \<Rightarrow> Some t))
            else
              bindE (filterE (isFresh parse lastSeen) nowDocs) (\<lambda>kept.
                let fresh = sort_key (sortKey parse) kept in
                if fresh \<noteq> [] then
                  bindE (toDateStrict parse (field (last fresh) ''submittedAt'')) (\<lambda>latest.
                    Inr (fresh,
                         (case latest of
                            None \<Rightarrow> lastSeen
                          | Some l \<Rightarrow>
                              (case lastSeen of
                                 None \<Rightarrow> Some l
                               | Some b \<Rightarrow> if js_gt (getTime l) (getTime b)
                                           then Some l else lastSeen))))
                else Inr ([], lastSeen))))"

text \<open>
  \<open>lastSeen\<close> after one run of the callback (an exception leaves it as it was), and
  after the runs on a sequence of snapshots.
\<close>

definition lastSeenAfter :: "(string \<Rightarrow> jsnum) \<Rightarrow> jsdate option \<Rightarrow> doc list \<Rightarrow> jsdate option" where
  "lastSeenAfter parse lastSeen nowDocs =
     (case onSnapshot_callback parse lastSeen nowDocs of
        Inr (fresh, lastSeen') \<Rightarrow> lastSeen'
      | Inl e \<Rightarrow> lastSeen)"

definition watch :: "(string \<Rightarrow> jsnum) \<Rightarrow> jsdate option \<Rightarrow> doc list list \<Rightarrow> jsdate option" where
  "watch parse lastSeen snapshots = foldl (lastSeenAfter parse) lastSeen snapshots"

section \<open>Notions of the specification\<close>

text \<open>
  The order on the tracked state in which it "never decreases": empty is below
  everything, instants are ordered by time, and an invalid date is only below itself.
\<close>

fun lastSeen_le :: "jsdate option \<Rightarrow> jsdate option \<Rightarrow> bool" where
  "lastSeen_le None s = True"
| "lastSeen_le (Some a) None = False"
| "lastSeen_le (Some (DateAt a)) (Some (DateAt b)) = (a \<le> b)"
| "lastSeen_le (Some InvalidDate) (Some InvalidDate) = True"
| "lastSeen_le (Some InvalidDate) (Some (DateAt b)) = False"
| "lastSeen_le (Some (DateAt a)) (Some InvalidDate) = False"

text \<open>The instant of a document's \<open>submittedAt\<close>, when it has one.\<close>

definition docInstant :: "(string \<Rightarrow> jsnum) \<Rightarrow> doc \<Rightarrow> int option" where
  "docInstant parse d =
     (case toDateStrict parse (field d ''submittedAt'') of
        Inr (Some (DateAt t)) \<Rightarrow> Some t
      | _ \<Rightarrow> None)"

text \<open>"The newest Instant in the batch".\<close>

fun newestInstant :: "(string \<Rightarrow> jsnum) \<Rightarrow> doc list \<Rightarrow> int option" where
  "newestInstant parse [] = None"
| "newestInstant parse (d # ds) =
     (case docInstant parse d of
        None \<Rightarrow> newestInstant parse ds
      | Some t \<Rightarrow> (case newestInstant parse ds of
                     None \<Rightarrow> Some t
                   | Some u \<Rightarrow> Some (max t u)))"

text \<open>"Documents whose timestamp strictly exceeds the tracked Instant".\<close>

definition newerThan :: "(string \<Rightarrow> jsnum) \<Rightarrow> int \<Rightarrow> doc \<Rightarrow> bool" where
  "newerThan parse s d = (case docInstant parse d of None \<Rightarrow> False | Some t \<Rightarrow> s < t)"

text \<open>
  "One calendar day's wall-clock duration in the target timezone, computed from timezone
  offsets at the two boundary instants": the instant at which the zone's wall clock reads
  midnight of a date is the UTC midnight of the date minus the offset in force at that
  instant (found in two passes), and the local day lasts from its midnight to the next.
\<close>

definition localMidnight :: "tzdata \<Rightarrow> string \<Rightarrow> int \<Rightarrow> int \<Rightarrow> int \<Rightarrow> jserror + jsnum" where
  "localMidnight tzd timeZone year month1Based day =
     (let u = Date_UTC year (month1Based - 1) day 0 0 0 0 in
      bindE (tzOffsetMsAt tzd (newDate u) timeZone) (\<lambda>o1.
      bindE (tzOffsetMsAt tzd (newDate (js_sub u o1)) timeZone) (\<lambda>o2.
        Inr (js_sub u o2))))"

definition localDayDuration :: "tzdata \<Rightarrow> string \<Rightarrow> int \<Rightarrow> int \<Rightarrow> int \<Rightarrow> jserror + jsnum" where
  "localDayDuration tzd timeZone year month1Based day =
     bindE (localMidnight tzd timeZone year month1Based day) (\<lambda>a.
     bindE (localMidnight tzd timeZone year month1Based (day + 1)) (\<lambda>b.
       Inr (js_sub b a)))"

text \<open>
  "The query on a candidate fails or returns no document": the range query on the field
  rejects, or its snapshot is empty.
\<close>

definition queryFailsOrEmpty :: "getDocs \<Rightarrow> jsdate \<Rightarrow> jsdate \<Rightarrow> string \<Rightarrow> bool" where
  "queryFailsOrEmpty getDocs startTs endTs f =
     (case getDocs (rangeQuery f startTs endTs) of Inl e \<Rightarrow> True | Inr snap \<Rightarrow> snap = [])"

text \<open>
  "A candidate field normalizing to an Instant inside the window", with the timestamp
  normalizer \<open>toDateStrict\<close>; and "no document has any candidate field" doing so.
\<close>

definition normalizesInto :: "(string \<Rightarrow> jsnum) \<Rightarrow> jsdate \<Rightarrow> jsdate \<Rightarrow> jsval \<Rightarrow> bool" where
  "normalizesInto parse startTs endTs v =
     (case toDateStrict parse v of Inr r \<Rightarrow> inWindow r startTs endTs | Inl e \<Rightarrow> False)"

definition noFieldInWindow ::
    "(string \<Rightarrow> jsnum) \<Rightarrow> jsdate \<Rightarrow> jsdate \<Rightarrow> string list \<Rightarrow> doc list \<Rightarrow> bool" where
  "noFieldInWindow parse startTs endTs cands docs =
     list_all (\<lambda>d. list_all (\<lambda>f. \<not> normalizesInto parse startTs endTs (field d f)) cands) docs"

text \<open>
  "An object with a truthy \<open>toDate\<close> that is not a function". And the instant as which
  "an object with no truthy \<open>toDate\<close>, a numeric \<open>seconds\<close> and a \<open>nanoseconds\<close> that is not a
  number" is read: \<open>seconds * 1000 + floor(Number(nanoseconds ?? 0) / 1000000)\<close>
  milliseconds.
\<close>

definition toDateNotAFunction :: "jsval \<Rightarrow> bool" where
  "toDateNotAFunction v =
     (case v of
        JObj fs \<Rightarrow> truthy (field fs ''toDate'') \<and> typeof (field fs ''toDate'') \<noteq> ''function''
      | _ \<Rightarrow> False)"

definition secondsInstant :: "(jsval \<Rightarrow> jsnum) \<Rightarrow> jsval \<Rightarrow> jsdate option" where
  "secondsInstant toNum v =
     (case v of
        JObj fs \<Rightarrow>
          if \<not> truthy (field fs ''toDate'') \<and> typeof (field fs ''seconds'') = ''number''
             \<and> typeof (field fs ''nanoseconds'') \<noteq> ''number''
          then Some (newDate
                 (js_add (js_mul_const (numOf (field fs ''seconds'')) 1000)
                         (js_floor_div_const
                            (ToNumber toNum (nullish (field fs ''nanoseconds'') (JNum (Fin 0))))
                            1000000)))
          else None
      | _ \<Rightarrow> None)"

section \<open>Stores for examples\<close>

text \<open>Three documents with \<open>submittedAt\<close> at 5, 3 and 7 milliseconds.\<close>

definition d1 :: doc where
  "d1 = [(''id'', JStr ''d1''), (''submittedAt'', JNum (Fin 5))]"

definition d2 :: doc where
  "d2 = [(''id'', JStr ''d2''), (''submittedAt'', JNum (Fin 3))]"

definition d3 :: doc where
  "d3 = [(''id'', JStr ''d3''), (''submittedAt'', JNum (Fin 7))]"

text \<open>A document without any timestamp field, of a player.\<close>

definition d4 :: doc where
  "d4 = [(''id'', JStr ''d4''), (''playerId'', JStr ''p4''), (''totalPoints'', JNum (Fin 12))]"

text \<open>A conversion to numbers that reads nothing from what is not a number.\<close>

definition sampleToNum :: "jsval \<Rightarrow> jsnum" where
  "sampleToNum v = NaN"

text \<open>A store that rejects every query, and a \<open>users\<close> collection that rejects every lookup.\<close>

definition rejectingStore :: getDocs where
  "rejectingStore q = Inl (FirestoreError ''unavailable'')"

definition rejectingUsers :: getDoc where
  "rejectingUsers playerId = Inl (FirestoreError ''unavailable'')"

text \<open>
  A store without any index for a range query: it answers the fetch of a whole
  collection (three documents, none with a timestamp in October 2025) and rejects every
  query with a constraint.
\<close>

definition unindexedStore :: getDocs where
  "unindexedStore q =
     (case q of
        Query c [] \<Rightarrow> Inr [d1, d2, d4]
      | Query c (w # ws) \<Rightarrow> Inl (FirestoreError ''The query requires an index''))"

text \<open>
  A store for three candidate fields \<open>A\<close>, \<open>B\<close>, \<open>C\<close>: the range query on \<open>A\<close> rejects,
  the one on \<open>B\<close> answers with two documents, and any other query answers with one.
\<close>

definition abcStore :: getDocs where
  "abcStore q =
     (case q of
        Query c [] \<Rightarrow> Inr [d3]
      | Query c ((f, rest) # ws) \<Rightarrow>
          if f = ''A'' then Inl (FirestoreError ''The query requires an index'')
          else if f = ''B'' then Inr [d1, d2]
          else Inr [d3])"

text \<open>
  A document whose \<open>createdAt\<close> is a map with a field named \<open>toDate\<close> that is not a
  function, and a store without indexes that holds this document only.
\<close>

definition d5 :: doc where
  "d5 = [(''id'', JStr ''d5''), (''createdAt'', JObj [(''toDate'', JStr ''soon'')])]"

definition oddStore :: getDocs where
  "oddStore q =
     (case q of
        Query c [] \<Rightarrow> Inr [d5]
      | Query c (w # ws) \<Rightarrow> Inl (FirestoreError ''The query requires an index''))"

text \<open>
  A document whose \<open>createdAt\<close> holds the seconds of 4 October 2025, 12:00 UTC, and no
  nanoseconds; and a store without any index that holds it and \<open>d1\<close>.
\<close>

definition d8 :: doc where
  "d8 = [(''id'', JStr ''d8''), (''createdAt'', JObj [(''seconds'', JNum (Fin 1759579200))])]"

definition secondsStore :: getDocs where
  "secondsStore q =
     (case q of
        Query c [] \<Rightarrow> Inr [d8, d1]
      | Query c (w # ws) \<Rightarrow> Inl (FirestoreError ''The query requires an index''))"

text \<open>
  Two guesses of one player, one with no points and one with three, and a store that
  answers every query with them.
\<close>

definition g1 :: doc where
  "g1 = [(''playerId'', JStr ''p1''), (''pointsAwarded'', JNum (Fin 0))]"

definition g2 :: doc where
  "g2 = [(''playerId'', JStr ''p1''), (''pointsAwarded'', JNum (Fin 3))]"

definition guessStore :: getDocs where
  "guessStore q = Inr [g1, g2]"

text \<open>
  A \<open>Timestamp.fromDate\<close> for the examples: it takes the dates of the years 1 to 9999.
\<close>

definition sampleFromDate :: fromDate where
  "sampleFromDate d =
     (case d of
        InvalidDate \<Rightarrow> None
      | DateAt t \<Rightarrow>
          if - 62135596800000 \<le> t \<and> t < 253402300800000 then None
          else Some (FirestoreError ''Timestamp seconds out of range''))"

text \<open>
  Platforms for the examples. In the table of gameStats-today.ts every email is padded:
  the display throws a \<open>TypeError\<close> when one of them is not a string. In stats-today.ts
  only the comparator of the sort calls a method of an email, and only between two
  entries of equal \<open>total\<close>: the display is that of an engine whose sort passes every
  pair of entries to the comparator.
\<close>

definition tableDisplay :: "row display" where
  "tableDisplay rows =
     (if list_all (\<lambda>r. typeof (row_email r) = ''string'') rows then None else Some TypeError)"

definition listDisplay :: "(jsval \<times> nat \<times> nat) display" where
  "listDisplay rows =
     (if list_ex (\<lambda>a. typeof (fst a) \<noteq> ''string''
                      \<and> list_ex (\<lambda>b. b \<noteq> a \<and> fst (snd b) = fst (snd a)) rows) rows
      then Some TypeError else None)"

text \<open>
  A document whose \<open>email\<close> is a number, and a store that answers every query with it.
\<close>

definition d6 :: doc where
  "d6 = [(''id'', JStr ''d6''), (''email'', JNum (Fin 7)), (''totalPoints'', JNum (Fin 1))]"

definition numericEmailStore :: getDocs where
  "numericEmailStore q = Inr [d6]"

text \<open>A document whose \<open>submittedAt\<close> is a text that is no date.\<close>

definition d7 :: doc where
  "d7 = [(''id'', JStr ''d7''), (''submittedAt'', JStr ''garbage'')]"

section \<open>Properties of the arithmetic\<close>

lemma bitLength_bounds: "0 < n \<Longrightarrow> 2 ^ (bitLength n - 1) \<le> n \<and> n < 2 ^ bitLength n"
proof (induction n rule: bitLength.induct)
  case (1 n)
  show ?case
  proof (cases "n div 2 = 0")
    case True
    with 1(2) have "n = 1" by presburger
    then show ?thesis by (simp add: bitLength.simps)
  next
    case False
    then have pos: "0 < n div 2" by simp
    from 1(1) 1(2) pos have ih: "2 ^ (bitLength (n div 2) - 1) \<le> n div 2 \<and> n div 2 < 2 ^ bitLength (n div 2)"
      by simp
    have bl: "bitLength n = Suc (bitLength (n div 2))" using 1(2) by (subst bitLength.simps) simp
    have bpos: "0 < bitLength (n div 2)" using pos by (subst bitLength.simps) simp
    then obtain m where m: "bitLength (n div 2) = Suc m" by (cases "bitLength (n div 2)") auto
    from ih m have "2 ^ m \<le> n div 2" "n div 2 < 2 ^ Suc m" by simp_all
    then have "2 * 2 ^ m \<le> n" "n < 2 * 2 ^ Suc m" by presburger+
    then show ?thesis by (simp add: bl m)
  qed
qed

lemma bitLength_unique:
  assumes "2 ^ b \<le> n" "n < 2 ^ Suc b"
  shows "bitLength n = Suc b"
proof -
  have pos: "0 < n" using assms(1) by (metis less_le_trans zero_less_numeral zero_less_power)
  from bitLength_bounds[OF pos]
  have lo: "2 ^ (bitLength n - 1) \<le> n" and hi: "n < 2 ^ bitLength n" by simp_all
  from assms(1) hi have "(2::nat) ^ b < 2 ^ bitLength n" by (rule le_less_trans)
  then have 1: "b < bitLength n" by (simp only: power_strict_increasing_iff one_less_numeral_iff semiring_norm)
  from lo assms(2) have "(2::nat) ^ (bitLength n - 1) < 2 ^ Suc b" by (rule le_less_trans)
  then have 2: "bitLength n - 1 < Suc b" by (simp only: power_strict_increasing_iff one_less_numeral_iff semiring_norm)
  from 1 2 show ?thesis by simp
qed

lemma bitLength_1e16: "bitLength 10000000000000000 = 54"
proof -
  have "bitLength 10000000000000000 = Suc 53"
    by (rule bitLength_unique) simp_all
  then show ?thesis by simp
qed

lemma roundHalfEven_ge: "num div den \<le> roundHalfEven num den"
  by (simp add: roundHalfEven_def)

lemma roundDouble_exact: "\<bar>n\<bar> \<le> maxSafe \<Longrightarrow> roundDouble n = Fin n"
  by (simp add: roundDouble_def)

lemma roundDouble_big:
  assumes "maxSafe < \<bar>n\<bar>" "roundDouble n = Fin s"
  shows "maxSafe \<le> \<bar>s\<bar>"
proof -
  define N where "N = nat \<bar>n\<bar>"
  define k where "k = bitLength N - 53"
  define m where "m = roundHalfEven \<bar>n\<bar> (2 ^ k)"
  have Npos: "0 < N" using assms(1) by (simp add: N_def maxSafe_def)
  have Nbig: "2 ^ 53 < N" using assms(1) by (simp add: N_def maxSafe_def)
  from bitLength_bounds[OF Npos]
  have lo: "2 ^ (bitLength N - 1) \<le> N" and hi: "N < 2 ^ bitLength N" by simp_all
  from Nbig hi have "(2::nat) ^ 53 < 2 ^ bitLength N" by (rule less_trans)
  then have b: "53 < bitLength N" by (simp only: power_strict_increasing_iff one_less_numeral_iff semiring_norm)
  then have bk: "bitLength N - 1 = 52 + k" and kpos: "0 < k" by (simp_all add: k_def)
  from lo bk have "(2::nat) ^ (52 + k) \<le> N" by simp
  then have "int ((2::nat) ^ (52 + k)) \<le> int N" by (simp only: of_nat_le_iff)
  then have loi: "(2::int) ^ 52 * 2 ^ k \<le> \<bar>n\<bar>" by (simp add: N_def power_add)
  have "(2::int) ^ 52 = (2 ^ 52 * 2 ^ k) div 2 ^ k" by simp
  also have "\<dots> \<le> \<bar>n\<bar> div 2 ^ k" using loi by (intro zdiv_mono1) simp_all
  also have "\<dots> \<le> m" unfolding m_def by (rule roundHalfEven_ge)
  finally have m52: "(2::int) ^ 52 \<le> m" .
  have "(2::int) ^ 1 \<le> 2 ^ k" using kpos by (intro power_increasing) simp_all
  then have k2: "(2::int) \<le> 2 ^ k" by simp
  have "(2::int) ^ 52 * 2 \<le> m * 2 ^ k" using m52 k2 by (intro mult_mono) simp_all
  then have v: "maxSafe \<le> m * 2 ^ k" by (simp add: maxSafe_def)
  from assms have "finOrInf (sgn n) (m * 2 ^ k) = Fin s"
    by (simp add: roundDouble_def m_def k_def N_def)
  then have s: "s = sgn n * (m * 2 ^ k)"
    by (auto simp: finOrInf_def split: if_splits)
  have "n \<noteq> 0" using assms(1) by (auto simp: maxSafe_def)
  then have "\<bar>sgn n\<bar> = 1" by (simp add: sgn_if)
  then have "\<bar>s\<bar> = \<bar>m * 2 ^ k\<bar>" unfolding s by (simp add: abs_mult)
  with v show ?thesis by linarith
qed

lemma TimeClip_roundDouble:
  "TimeClip (roundDouble n) = (if \<bar>n\<bar> \<le> maxTime then Fin n else NaN)"
proof (cases "\<bar>n\<bar> \<le> maxSafe")
  case True
  then show ?thesis by (simp add: roundDouble_exact)
next
  case False
  then have big: "maxSafe < \<bar>n\<bar>" by simp
  then have nt: "\<not> \<bar>n\<bar> \<le> maxTime" by (simp add: maxSafe_def maxTime_def)
  show ?thesis
  proof (cases "roundDouble n")
    case (Fin s)
    from roundDouble_big[OF big Fin] have "maxTime < \<bar>s\<bar>" by (simp add: maxSafe_def maxTime_def)
    with Fin nt show ?thesis by simp
  qed (simp_all add: nt)
qed

lemma newDate_js_sub:
  assumes "newDate (js_sub a b) = DateAt c"
  shows "\<exists>a' b'. a = Fin a' \<and> b = Fin b' \<and> c = a' - b' \<and> js_sub a b = Fin c"
proof -
  from assms obtain a' b' where ab: "a = Fin a'" "b = Fin b'"
    by (cases a; cases b) (auto simp: js_sub_def newDate_def)
  with assms have "(case TimeClip (roundDouble (a' - b')) of Fin t \<Rightarrow> DateAt t | _ \<Rightarrow> InvalidDate) = DateAt c"
    by (simp add: js_sub_def newDate_def)
  then have c: "c = a' - b'" "\<bar>a' - b'\<bar> \<le> maxTime"
    by (simp_all add: TimeClip_roundDouble split: if_splits)
  then have "js_sub a b = Fin c"
    by (simp add: ab js_sub_def roundDouble_exact maxSafe_def maxTime_def)
  with ab c show ?thesis by blast
qed

lemma js_sub_exact: "\<bar>a - b\<bar> \<le> maxSafe \<Longrightarrow> js_sub (Fin a) (Fin b) = Fin (a - b)"
  by (simp add: js_sub_def roundDouble_exact)

lemma roundDouble_1e16: "roundDouble 10000000000000000 = Fin 10000000000000000"
  by (simp add: roundDouble_def maxSafe_def bitLength_1e16 roundHalfEven_def finOrInf_def)

text \<open>
  Above \<open>2 ^ 53\<close> the operations round: \<open>72057594037929 * 1000\<close> is a tie between two
  multiples of 16 and goes to the even one, 8 below; a quotient that a double holds is
  exact.
\<close>

lemma bitLength_product: "bitLength 72057594037929000 = 57"
proof -
  have "bitLength 72057594037929000 = Suc 56"
    by (rule bitLength_unique) simp_all
  then show ?thesis by simp
qed

lemma bitLength_quotient: "bitLength 72057594037927936 = 57"
proof -
  have "bitLength 72057594037927936 = Suc 56"
    by (rule bitLength_unique) simp_all
  then show ?thesis by simp
qed

lemma roundDouble_product: "roundDouble 72057594037929000 = Fin 72057594037928992"
  by (simp add: roundDouble_def maxSafe_def bitLength_product roundHalfEven_def finOrInf_def)

lemma floorQuot_quotient:
  "floorQuot (- 72057594037927936000000) 1000000 = Fin (- 72057594037927936)"
  by (simp add: floorQuot_def floorQuotBig_def maxSafe_def bitLength_quotient
        roundHalfEven_def finOrInf_def)

section \<open>Properties of the timestamp normalizer\<close>

lemma TimeClip_Fin: "TimeClip x = Fin t \<Longrightarrow> \<bar>t\<bar> \<le> maxTime"
  by (cases x) (auto split: if_splits)

lemma nullIfInvalid_newDate: "nullIfInvalid (newDate n) = Some d \<Longrightarrow> validDate d"
  by (cases "TimeClip n")
     (auto simp: nullIfInvalid_def newDate_def dest: TimeClip_Fin split: if_splits)

lemma isFSTimestampMethod_total: "\<exists>b. isFSTimestampMethod v = Inr b"
  by (cases v) (auto simp: isFSTimestampMethod_def)

lemma isFSTimestampPojo_total: "\<exists>b. isFSTimestampPojo v = Inr b"
  by (cases v) (auto simp: isFSTimestampPojo_def)

lemma isFSTimestampMethod_True:
  "isFSTimestampMethod v = Inr True \<Longrightarrow>
     \<exists>fs d. v = JObj fs \<and> map_of fs ''toDate'' = Some (JFn d)"
  apply (cases v; simp add: isFSTimestampMethod_def split: if_splits option.splits)
  subgoal for fs x by (cases x) auto
  done

lemma isFSTimestampPojo_True:
  "isFSTimestampPojo v = Inr True \<Longrightarrow>
     \<exists>fs s n. v = JObj fs \<and> map_of fs ''seconds'' = Some (JNum s)
        \<and> map_of fs ''nanoseconds'' = Some (JNum n)"
  apply (cases v; simp add: isFSTimestampPojo_def split: if_splits option.splits)
  subgoal for fs x y by (cases x; cases y) auto
  done

lemma toDateStrict_returns: "\<exists>r. toDateStrict parse v = Inr r"
proof -
  obtain m where m: "isFSTimestampMethod v = Inr m"
    using isFSTimestampMethod_total by blast
  obtain p where p: "isFSTimestampPojo v = Inr p"
    using isFSTimestampPojo_total by blast
  show ?thesis
  proof (cases m)
    case True
    with m have "isFSTimestampMethod v = Inr True" by simp
    then obtain fs d where "v = JObj fs" "map_of fs ''toDate'' = Some (JFn d)"
      using isFSTimestampMethod_True by blast
    with m True show ?thesis
      by (simp add: toDateStrict_def callMethod_def)
  next
    case False
    show ?thesis
    proof (cases p)
      case True
      with p have "isFSTimestampPojo v = Inr True" by simp
      then obtain fs s n where "v = JObj fs" "map_of fs ''seconds'' = Some (JNum s)"
          "map_of fs ''nanoseconds'' = Some (JNum n)"
        using isFSTimestampPojo_True by blast
      with m p True False show ?thesis
        by (simp add: toDateStrict_def Let_def)
    next
      case np: False
      with m p False show ?thesis
        by (cases v) (auto simp: toDateStrict_def)
    qed
  qed
qed

text \<open>
  C4, as stated, fails: \<open>toDateStrict\<close> hands a native \<open>Date\<close> back as it is, so for the
  invalid date (\<open>new Date(NaN)\<close>) the result is neither a valid instant nor \<open>null\<close>.
\<close>

theorem toDateStrict_invalid_Date_counterexample:
  "toDateStrict sampleParse (JDate InvalidDate) = Inr (Some InvalidDate)
     \<and> \<not> validDate InvalidDate"
  by (simp add: toDateStrict_def isFSTimestampMethod_def isFSTimestampPojo_def)

text \<open>
  C4, amended: \<open>toDateStrict\<close> is total and never throws: for every value it returns
  \<open>null\<close> or a \<open>Date\<close>. The \<open>Date\<close> is a valid instant, except that a native \<open>Date\<close>
  given as input and the \<open>Date\<close> returned by the input's own \<open>toDate\<close> method are handed
  back as they are, without a check.
\<close>

theorem toDateStrict_total:
  "\<exists>r. toDateStrict parse v = Inr r \<and>
     (case r of
        None \<Rightarrow> True
      | Some d \<Rightarrow> validDate d \<or> v = JDate d \<or> getProp v ''toDate'' = Inr (JFn d))"
proof -
  obtain m where m: "isFSTimestampMethod v = Inr m"
    using isFSTimestampMethod_total by blast
  obtain p where p: "isFSTimestampPojo v = Inr p"
    using isFSTimestampPojo_total by blast
  show ?thesis
  proof (cases m)
    case True
    with m have "isFSTimestampMethod v = Inr True" by simp
    then obtain fs d where "v = JObj fs" "map_of fs ''toDate'' = Some (JFn d)"
      using isFSTimestampMethod_True by blast
    with m True show ?thesis
      by (simp add: toDateStrict_def callMethod_def)
  next
    case False
    show ?thesis
    proof (cases p)
      case True
      with p have "isFSTimestampPojo v = Inr True" by simp
      then obtain fs s n where "v = JObj fs" "map_of fs ''seconds'' = Some (JNum s)"
          "map_of fs ''nanoseconds'' = Some (JNum n)"
        using isFSTimestampPojo_True by blast
      with m p True False show ?thesis
        by (auto simp: toDateStrict_def Let_def split: option.splits dest: nullIfInvalid_newDate)
    next
      case np: False
      with m p False show ?thesis
        by (cases v) (auto simp: toDateStrict_def split: option.splits dest: nullIfInvalid_newDate)
    qed
  qed
qed


lemma toDateStrict_pojo_general:
  assumes "map_of fs ''seconds'' = Some (JNum s)"
    and "map_of fs ''nanoseconds'' = Some (JNum n)"
    and "isFSTimestampMethod (JObj fs) = Inr False"
  shows "toDateStrict parse (JObj fs) =
           Inr (nullIfInvalid (newDate (js_add (js_mul_const s 1000)
                                               (js_floor_div_const n 1000000))))"
  using assms by (simp add: toDateStrict_def isFSTimestampPojo_def Let_def)

text \<open>
  Beyond \<open>2 ^ 53\<close> the result need not be that of the exact formula. With
  \<open>seconds = 72057594037929\<close> and \<open>nanoseconds = -72057594037927936000000\<close> the product
  is rounded to \<open>72057594037928992\<close>, and the instant is at 1056 milliseconds.
\<close>

lemma toDateStrict_pojo_rounded:
  "toDateStrict sampleParse
     (JObj [(''seconds'', JNum (Fin 72057594037929)),
            (''nanoseconds'', JNum (Fin (- 72057594037927936000000)))])
   = Inr (Some (DateAt 1056))"
  by (simp add: toDateStrict_def isFSTimestampMethod_def isFSTimestampPojo_def Let_def
        newDate_def nullIfInvalid_def maxTime_def roundDouble_product floorQuot_quotient
        roundDouble_exact maxSafe_def)

text \<open>
  C8, as stated, fails, in two ways. With \<open>seconds = 10000000000000\<close> and
  \<open>nanoseconds = 0\<close> the sum is \<open>1e16\<close> milliseconds, beyond the range of time values,
  and the check \<open>isNaN(d.getTime())\<close> turns the result into \<open>null\<close>. With
  \<open>seconds = 72057594037929\<close> and \<open>nanoseconds = -72057594037927936000000\<close> the formula
  gives 1064 and the code, which computes in doubles, the instant at 1056.
\<close>

theorem toDateStrict_pojo_out_of_range_counterexample:
  "toDateStrict sampleParse
     (JObj [(''seconds'', JNum (Fin 10000000000000)), (''nanoseconds'', JNum (Fin 0))])
   = Inr None
   \<and> toDateStrict sampleParse
       (JObj [(''seconds'', JNum (Fin 72057594037929)),
              (''nanoseconds'', JNum (Fin (- 72057594037927936000000)))])
     = Inr (Some (DateAt 1056))
   \<and> (72057594037929::int) * 1000 + (- 72057594037927936000000) div 1000000 = 1064"
  by (simp add: toDateStrict_pojo_rounded)
     (simp add: toDateStrict_def isFSTimestampMethod_def isFSTimestampPojo_def Let_def
        newDate_def nullIfInvalid_def maxTime_def roundDouble_1e16 floorQuot_def maxSafe_def)

text \<open>
  C8, amended: for every object with integer \<open>seconds\<close> and \<open>nanoseconds\<close>, where
  \<open>seconds * 1000\<close> and \<open>nanoseconds\<close> are of magnitude at most \<open>2 ^ 53\<close> (so that the
  product and the quotient are computed without rounding), and no \<open>toDate\<close> method,
  \<open>toDateStrict\<close> returns the instant at
  \<open>seconds * 1000 + floor(nanoseconds / 1000000)\<close> milliseconds when that is a time value
  (of magnitude at most \<open>8.64e15\<close>), and \<open>null\<close> otherwise.
\<close>

theorem toDateStrict_pojo:
  assumes "map_of fs ''seconds'' = Some (JNum (Fin s))"
    and "map_of fs ''nanoseconds'' = Some (JNum (Fin n))"
    and "isFSTimestampMethod (JObj fs) = Inr False"
    and "\<bar>s * 1000\<bar> \<le> maxSafe" and "\<bar>n\<bar> \<le> maxSafe"
  shows "toDateStrict parse (JObj fs) =
           Inr (if \<bar>s * 1000 + n div 1000000\<bar> \<le> maxTime
                then Some (DateAt (s * 1000 + n div 1000000)) else None)"
  using toDateStrict_pojo_general[OF assms(1-3), of parse] assms(4,5)
  by (simp add: newDate_def nullIfInvalid_def roundDouble_exact floorQuot_def
        TimeClip_roundDouble)

theorem toDateStrict_pojo_witness:
  "toDateStrict sampleParse
     (JObj [(''seconds'', JNum (Fin 1700000000)), (''nanoseconds'', JNum (Fin 500000000))])
   = Inr (Some (DateAt 1700000000500))"
proof -
  let ?fs = "[(''seconds'', JNum (Fin 1700000000)), (''nanoseconds'', JNum (Fin 500000000))]"
  have h1: "map_of ?fs ''seconds'' = Some (JNum (Fin 1700000000))" by simp
  have h2: "map_of ?fs ''nanoseconds'' = Some (JNum (Fin 500000000))" by simp
  have h3: "isFSTimestampMethod (JObj ?fs) = Inr False"
    by (simp add: isFSTimestampMethod_def)
  have h4: "\<bar>1700000000 * 1000\<bar> \<le> maxSafe" by (simp add: maxSafe_def)
  have h5: "\<bar>500000000\<bar> \<le> maxSafe" by (simp add: maxSafe_def)
  show ?thesis
    using toDateStrict_pojo[OF h1 h2 h3 h4 h5, of sampleParse] by (simp add: maxTime_def)
qed

section \<open>Properties of the local-day window\<close>

lemma MakeDay_Suc: "MakeDay y m (d + 1) = MakeDay y m d + 1"
  by (simp add: MakeDay_def Let_def)

lemma Date_UTC_Fin:
  "Date_UTC y m d h mi s ms = Fin a \<Longrightarrow>
     a = MakeDay (MakeFullYear y) m d * msPerDay + MakeTime h mi s ms"
  by (auto simp: Date_UTC_def MakeDate_def split: if_splits)

lemma Date_UTC_midnights:
  assumes "Date_UTC y m d 0 0 0 0 = Fin a" and "Date_UTC y m (d + 1) 0 0 0 0 = Fin b"
  shows "b - a = 86400000"
  using Date_UTC_Fin[OF assms(1)] Date_UTC_Fin[OF assms(2)]
  unfolding MakeDay_Suc by (simp add: msPerDay_def algebra_simps)

lemma newDate_DateAt: "newDate n = DateAt t \<Longrightarrow> n = Fin t"
  by (cases n) (auto simp: newDate_def split: if_splits)

lemma window_of_offset:
  assumes "bindE (tzOffsetMsAt tzd probe tz) (\<lambda>offsetMs.
           let localMidnightUTCms = js_sub (Date_UTC y mo d 0 0 0 0) offsetMs;
               nextMidnightUTCms = js_sub (Date_UTC y mo (d + 1) 0 0 0 0) offsetMs
           in Inr \<lparr>w_start = newDate localMidnightUTCms, w_end = newDate nextMidnightUTCms\<rparr>) = Inr w"
    and "w_start w = DateAt s" and "w_end w = DateAt e"
  shows "\<exists>off. tzOffsetMsAt tzd probe tz = Inr (Fin off)
           \<and> Date_UTC y mo d 0 0 0 0 = Fin (s + off)
           \<and> Date_UTC y mo (d + 1) 0 0 0 0 = Fin (e + off)"
proof -
  from assms(1) obtain off where off: "tzOffsetMsAt tzd probe tz = Inr off"
    by (cases "tzOffsetMsAt tzd probe tz") auto
  with assms(1) have w: "w = \<lparr>w_start = newDate (js_sub (Date_UTC y mo d 0 0 0 0) off),
                              w_end = newDate (js_sub (Date_UTC y mo (d + 1) 0 0 0 0) off)\<rparr>"
    by (simp add: Let_def)
  from w assms(2) have "newDate (js_sub (Date_UTC y mo d 0 0 0 0) off) = DateAt s"
    by auto
  then obtain a o1 where a: "Date_UTC y mo d 0 0 0 0 = Fin a" "off = Fin o1" "s = a - o1"
    using newDate_js_sub by blast
  from w assms(3) have "newDate (js_sub (Date_UTC y mo (d + 1) 0 0 0 0) off) = DateAt e"
    by auto
  then obtain b o2 where b: "Date_UTC y mo (d + 1) 0 0 0 0 = Fin b" "off = Fin o2" "e = b - o2"
    using newDate_js_sub by blast
  from a b off show ?thesis by auto
qed

lemma stats_is_gameStats:
  "stats_dayRangeUTC tzd y m d tzArg =
     gameStats_dayRangeUTC tzd y m d (Some ''America/Indiana/Indianapolis'')"
  by (simp add: stats_dayRangeUTC_def gameStats_dayRangeUTC_def Let_def)

lemma dayRangeUTC_offset:
  assumes "gameStats_dayRangeUTC tzd y m d (Some tz) = Inr w"
    and "w_start w = DateAt s" and "w_end w = DateAt e"
  shows "\<exists>off. tzOffsetMsAt tzd (newDate (Date_UTC y (m - 1) d 12 0 0 0)) tz = Inr (Fin off)
             \<and> Date_UTC y (m - 1) d 0 0 0 0 = Fin (s + off)
             \<and> Date_UTC y (m - 1) (d + 1) 0 0 0 0 = Fin (e + off)"
  using window_of_offset[of tzd _ tz y "m - 1" d w s e] assms
  by (auto simp: gameStats_dayRangeUTC_def Let_def)

lemma dayRangeUTC_24h:
  assumes "gameStats_dayRangeUTC tzd y m d (Some tz) = Inr w"
    and "w_start w = DateAt s" and "w_end w = DateAt e"
  shows "e - s = 86400000"
proof -
  from dayRangeUTC_offset[OF assms] obtain off where
      "Date_UTC y (m - 1) d 0 0 0 0 = Fin (s + off)"
      "Date_UTC y (m - 1) (d + 1) 0 0 0 0 = Fin (e + off)"
    by blast
  from Date_UTC_midnights[OF this] show ?thesis by simp
qed

text \<open>
  For the dates of ordinary calendars and a zone whose offset at the probe is known and at
  most a day, \<open>dayRangeUTC\<close> returns a window of two valid instants.
\<close>

lemma DayFromYear_bounds:
  assumes "- 200000 \<le> y" and "y \<le> 200000"
  shows "\<bar>DayFromYear y\<bar> \<le> 74000000"
proof -
  have a: "(y - 1969) div 4 \<le> (200000 - 1969) div 4" "(- 200000 - 1969) div 4 \<le> (y - 1969) div 4"
    using assms by (auto intro!: zdiv_mono1)
  have b: "(y - 1901) div 100 \<le> (200000 - 1901) div 100"
    "(- 200000 - 1901) div 100 \<le> (y - 1901) div 100"
    using assms by (auto intro!: zdiv_mono1)
  have c: "(y - 1601) div 400 \<le> (200000 - 1601) div 400"
    "(- 200000 - 1601) div 400 \<le> (y - 1601) div 400"
    using assms by (auto intro!: zdiv_mono1)
  define A where "A = (y - 1969) div 4"
  define B where "B = (y - 1901) div 100"
  define C where "C = (y - 1601) div 400"
  from a b c have bs: "A \<le> 49507" "- 50493 \<le> A" "B \<le> 1980" "- 2020 \<le> B"
      "C \<le> 495" "- 505 \<le> C"
    by (simp_all add: A_def B_def C_def)
  from assms bs have "365 * (y - 1970) + A - B + C \<le> 74000000" by simp
  moreover from assms bs have "- 74000000 \<le> 365 * (y - 1970) + A - B + C" by simp
  ultimately have "\<bar>365 * (y - 1970) + A - B + C\<bar> \<le> 74000000" by (simp add: abs_le_iff)
  then show ?thesis
    by (simp only: DayFromYear_def A_def B_def C_def)
qed

lemma monthStart_bounds:
  assumes "0 \<le> mn" and "mn \<le> 11"
  shows "0 \<le> monthStart y mn \<and> monthStart y mn \<le> 335"
proof -
  let ?tab = "[0, 31, 59, 90, 120, 151, 181, 212, 243, 273, 304, 334] :: int list"
  from assms have "nat mn < length ?tab" by simp
  then have "?tab ! nat mn \<in> set ?tab" by (rule nth_mem)
  moreover have "\<forall>x \<in> set ?tab. 0 \<le> x \<and> x \<le> 334" by simp
  ultimately have t: "0 \<le> ?tab ! nat mn \<and> ?tab ! nat mn \<le> 334" by blast
  define T where "T = ?tab ! nat mn"
  have "monthStart y mn = T + (if InLeapYear y \<and> 2 \<le> mn then 1 else 0)"
    by (simp only: monthStart_def T_def)
  with t show ?thesis by (auto simp: T_def[symmetric])
qed

lemma MakeDay_bounds:
  assumes "- 200000 \<le> y" and "y \<le> 200000" and "1 \<le> m" and "m \<le> 12"
    and "1 \<le> d" and "d \<le> 32"
  shows "\<bar>MakeDay (MakeFullYear y) (m - 1) d\<bar> \<le> 75000000"
proof -
  let ?y = "MakeFullYear y"
  from assms(1,2) have y: "- 200000 \<le> ?y" "?y \<le> 200000"
    by (auto simp: MakeFullYear_def)
  from assms(3,4) have m: "(m - 1) div 12 = 0" "(m - 1) mod 12 = m - 1"
    by auto
  from assms(3,4) have "0 \<le> m - 1" "m - 1 \<le> 11" by auto
  from monthStart_bounds[OF this, of ?y] DayFromYear_bounds[OF y] assms(5,6)
  have "\<bar>DayFromYear ?y + monthStart ?y (m - 1) + d - 1\<bar> \<le> 75000000" by linarith
  with m show ?thesis
    by (simp add: MakeDay_def Let_def)
qed

lemma Date_UTC_in_range:
  assumes "- 200000 \<le> y" and "y \<le> 200000" and "1 \<le> m" and "m \<le> 12"
    and "1 \<le> d" and "d \<le> 32" and "h = 0 \<or> h = 12"
  shows "\<exists>t. Date_UTC y (m - 1) d h 0 0 0 = Fin t \<and> \<bar>t\<bar> \<le> 6500000000000000
           \<and> t = MakeDay (MakeFullYear y) (m - 1) d * msPerDay + h * 3600000"
proof -
  let ?day = "MakeDay (MakeFullYear y) (m - 1) d"
  from MakeDay_bounds[OF assms(1-6)] have "\<bar>?day\<bar> \<le> 75000000" .
  with assms(7) have "\<bar>?day * 86400000 + h * 3600000\<bar> \<le> 6500000000000000"
    by auto
  then show ?thesis
    by (simp add: Date_UTC_def MakeDate_def MakeTime_def msPerDay_def maxTime_def)
qed

lemma newDate_Fin: "\<bar>t\<bar> \<le> maxTime \<Longrightarrow> newDate (Fin t) = DateAt t"
  by (simp add: newDate_def)

lemma dayRangeUTC_returns_window:
  assumes "- 200000 \<le> y" and "y \<le> 200000" and "1 \<le> m" and "m \<le> 12"
    and "1 \<le> d" and "d \<le> 31"
    and "tzOffsetMsAt tzd (newDate (Date_UTC y (m - 1) d 12 0 0 0)) tz = Inr (Fin off)"
    and "\<bar>off\<bar> \<le> msPerDay"
  shows "\<exists>s e. gameStats_dayRangeUTC tzd y m d (Some tz)
                  = Inr \<lparr>w_start = DateAt s, w_end = DateAt e\<rparr> \<and> e - s = 86400000"
proof -
  from assms(5,6) have d: "1 \<le> d" "d \<le> 32" "1 \<le> d + 1" "d + 1 \<le> 32" by auto
  from Date_UTC_in_range[OF assms(1-4) d(1,2), of 0] obtain a where
    a: "Date_UTC y (m - 1) d 0 0 0 0 = Fin a" "\<bar>a\<bar> \<le> 6500000000000000"
       "a = MakeDay (MakeFullYear y) (m - 1) d * msPerDay + 0 * 3600000" by auto
  from Date_UTC_in_range[OF assms(1-4) d(3,4), of 0] obtain b where
    b: "Date_UTC y (m - 1) (d + 1) 0 0 0 0 = Fin b" "\<bar>b\<bar> \<le> 6500000000000000"
       "b = MakeDay (MakeFullYear y) (m - 1) (d + 1) * msPerDay + 0 * 3600000" by auto
  from a(3) b(3) have "b - a = 86400000"
    by (simp add: MakeDay_def Let_def msPerDay_def algebra_simps)
  then have diff: "(b - off) - (a - off) = 86400000" by simp
  from a(2) assms(8) have ta: "\<bar>a - off\<bar> \<le> maxTime" by (simp add: maxTime_def msPerDay_def)
  then have sa: "newDate (Fin (a - off)) = DateAt (a - off)" by (rule newDate_Fin)
  from ta have ea: "js_sub (Fin a) (Fin off) = Fin (a - off)"
    by (intro js_sub_exact) (simp add: maxTime_def maxSafe_def)
  from b(2) assms(8) have tb: "\<bar>b - off\<bar> \<le> maxTime" by (simp add: maxTime_def msPerDay_def)
  then have sb: "newDate (Fin (b - off)) = DateAt (b - off)" by (rule newDate_Fin)
  from tb have eb: "js_sub (Fin b) (Fin off) = Fin (b - off)"
    by (intro js_sub_exact) (simp add: maxTime_def maxSafe_def)
  from a(1) b(1) assms(7) sa sb ea eb
  have "gameStats_dayRangeUTC tzd y m d (Some tz)
          = Inr \<lparr>w_start = DateAt (a - off), w_end = DateAt (b - off)\<rparr>"
    by (simp add: gameStats_dayRangeUTC_def)
  with diff show ?thesis by blast
qed

text \<open>
  C1, amended: whenever \<open>dayRangeUTC\<close> (of either script) returns a window of two valid
  instants, \<open>end - start\<close> is exactly 24 hours (86,400,000 ms), whatever the time zone and
  whether or not a daylight-saving transition falls on that day: the offset is sampled
  once, at 12:00 UTC of the day, and the same sample is subtracted from the UTC midnight
  of the day and from the UTC midnight of the next day.
\<close>

theorem dayRangeUTC_single_offset:
  assumes "(gameStats_dayRangeUTC tzd y m d tzArg = Inr w
              \<and> tz = (case tzArg of None \<Rightarrow> ''America/Indiana/Indianapolis'' | Some z \<Rightarrow> z))
         \<or> (stats_dayRangeUTC tzd y m d tzArg = Inr w \<and> tz = ''America/Indiana/Indianapolis'')"
    and "w_start w = DateAt s" and "w_end w = DateAt e"
  shows "e - s = 86400000
       \<and> (\<exists>off. tzOffsetMsAt tzd (newDate (Date_UTC y (m - 1) d 12 0 0 0)) tz = Inr (Fin off)
             \<and> Date_UTC y (m - 1) d 0 0 0 0 = Fin (s + off)
             \<and> Date_UTC y (m - 1) (d + 1) 0 0 0 0 = Fin (e + off))"
proof -
  from assms(1) have g: "gameStats_dayRangeUTC tzd y m d (Some tz) = Inr w"
    by (auto simp: stats_is_gameStats gameStats_dayRangeUTC_def split: option.splits)
  from dayRangeUTC_24h[OF g assms(2,3)] dayRangeUTC_offset[OF g assms(2,3)]
  show ?thesis by blast
qed

text \<open>
  C9: for every year, month, day and time zone such that no daylight-saving transition
  falls between the local midnight and the probe of that day (the zone's offset at the
  start of the window is the offset sampled at the probe), the window returned by
  \<open>dayRangeUTC\<close> (of either script) satisfies \<open>end - start = 86,400,000\<close> ms. The window
  is one of two valid instants: outside the range of \<open>Date\<close> there is none. For the years
  from -200000 to 200000, the months 1 to 12, the days 1 to 31 and a zone whose offset at
  the probe is at most a day, the window is returned.
\<close>

theorem dayRangeUTC_no_transition_24h:
  "(((gameStats_dayRangeUTC tzd y m d tzArg = Inr w
        \<and> tz = (case tzArg of None \<Rightarrow> ''America/Indiana/Indianapolis'' | Some z \<Rightarrow> z))
      \<or> (stats_dayRangeUTC tzd y m d tzArg = Inr w \<and> tz = ''America/Indiana/Indianapolis''))
     \<and> w_start w = DateAt s \<and> w_end w = DateAt e
     \<and> tzOffsetMsAt tzd (DateAt s) tz
           = tzOffsetMsAt tzd (newDate (Date_UTC y (m - 1) d 12 0 0 0)) tz
     \<longrightarrow> e - s = 86400000)
   \<and> (- 200000 \<le> y \<and> y \<le> 200000 \<and> 1 \<le> m \<and> m \<le> 12 \<and> 1 \<le> d \<and> d \<le> 31
       \<and> tzOffsetMsAt tzd (newDate (Date_UTC y (m - 1) d 12 0 0 0)) tz = Inr (Fin off)
       \<and> \<bar>off\<bar> \<le> msPerDay
     \<longrightarrow> (\<exists>s' e'. gameStats_dayRangeUTC tzd y m d (Some tz)
                      = Inr \<lparr>w_start = DateAt s', w_end = DateAt e'\<rparr>
                  \<and> e' - s' = 86400000))"
proof (intro conjI impI)
  assume a: "((gameStats_dayRangeUTC tzd y m d tzArg = Inr w
        \<and> tz = (case tzArg of None \<Rightarrow> ''America/Indiana/Indianapolis'' | Some z \<Rightarrow> z))
      \<or> (stats_dayRangeUTC tzd y m d tzArg = Inr w \<and> tz = ''America/Indiana/Indianapolis''))
     \<and> w_start w = DateAt s \<and> w_end w = DateAt e
     \<and> tzOffsetMsAt tzd (DateAt s) tz
           = tzOffsetMsAt tzd (newDate (Date_UTC y (m - 1) d 12 0 0 0)) tz"
  then have g: "gameStats_dayRangeUTC tzd y m d (Some tz) = Inr w"
    by (auto simp: stats_is_gameStats gameStats_dayRangeUTC_def split: option.splits)
  from a have "w_start w = DateAt s" "w_end w = DateAt e" by simp_all
  from dayRangeUTC_24h[OF g this] show "e - s = 86400000" .
next
  assume "- 200000 \<le> y \<and> y \<le> 200000 \<and> 1 \<le> m \<and> m \<le> 12 \<and> 1 \<le> d \<and> d \<le> 31
       \<and> tzOffsetMsAt tzd (newDate (Date_UTC y (m - 1) d 12 0 0 0)) tz = Inr (Fin off)
       \<and> \<bar>off\<bar> \<le> msPerDay"
  then show "\<exists>s' e'. gameStats_dayRangeUTC tzd y m d (Some tz)
                      = Inr \<lparr>w_start = DateAt s', w_end = DateAt e'\<rparr>
                  \<and> e' - s' = 86400000"
    using dayRangeUTC_returns_window[of y m d tzd tz off] by blast
qed

subsection \<open>The window on two days of 2025\<close>

lemmas utc_eval = Date_UTC_def MakeDate_def MakeDay_def MakeTime_def MakeFullYear_def
  DayFromYear_def monthStart_def InLeapYear_def msPerDay_def maxTime_def Let_def

lemmas wall_eval = wallClockUTC_def wallClockOf_def civilFromDays_def civilOfEra_def
  civilOfYear_def civilOfMonth_def

lemma tzOffsetMsAt_Indianapolis:
  assumes "wallClockUTC (t + indianapolisOffset2025 t)
             = \<lparr>wc_year = y, wc_month = mo, wc_day = d, wc_hour = h, wc_minute = mi, wc_second = s\<rparr>"
    and "Date_UTC y (mo - 1) d h mi s 0 = Fin w"
    and "\<bar>w - t\<bar> \<le> maxSafe"
  shows "tzOffsetMsAt sampleZones (DateAt t) ''America/Indiana/Indianapolis'' = Inr (Fin (w - t))"
  using assms by (simp add: tzOffsetMsAt_def sampleZones_def js_sub_exact)

text \<open>4 October 2025: daylight time all day.\<close>

lemma utc_oct4_noon: "Date_UTC 2025 9 4 12 0 0 0 = Fin 1759579200000"
  by (simp add: utc_eval)

lemma utc_oct4: "Date_UTC 2025 9 4 0 0 0 0 = Fin 1759536000000"
  by (simp add: utc_eval)

lemma utc_oct5: "Date_UTC 2025 9 5 0 0 0 0 = Fin 1759622400000"
  by (simp add: utc_eval)

lemma offset_oct4_probe:
  "tzOffsetMsAt sampleZones (DateAt 1759579200000) ''America/Indiana/Indianapolis''
     = Inr (Fin (- 14400000))"
proof -
  have "wallClockUTC (1759579200000 + indianapolisOffset2025 1759579200000)
          = \<lparr>wc_year = 2025, wc_month = 10, wc_day = 4, wc_hour = 8, wc_minute = 0, wc_second = 0\<rparr>"
    by (simp add: indianapolisOffset2025_def wall_eval)
  moreover have "Date_UTC 2025 (10 - 1) 4 8 0 0 0 = Fin 1759564800000"
    by (simp add: utc_eval)
  ultimately show ?thesis
    using tzOffsetMsAt_Indianapolis[of 1759579200000 2025 10 4 8 0 0 1759564800000] by (simp add: maxSafe_def)
qed

lemma offset_oct4_start:
  "tzOffsetMsAt sampleZones (DateAt 1759550400000) ''America/Indiana/Indianapolis''
     = Inr (Fin (- 14400000))"
proof -
  have "wallClockUTC (1759550400000 + indianapolisOffset2025 1759550400000)
          = \<lparr>wc_year = 2025, wc_month = 10, wc_day = 4, wc_hour = 0, wc_minute = 0, wc_second = 0\<rparr>"
    by (simp add: indianapolisOffset2025_def wall_eval)
  moreover have "Date_UTC 2025 (10 - 1) 4 0 0 0 0 = Fin 1759536000000"
    by (simp add: utc_eval)
  ultimately show ?thesis
    using tzOffsetMsAt_Indianapolis[of 1759550400000 2025 10 4 0 0 0 1759536000000] by (simp add: maxSafe_def)
qed

lemma gameStats_window_oct4:
  "gameStats_dayRangeUTC sampleZones 2025 10 4 (Some ''America/Indiana/Indianapolis'')
     = Inr window_oct4"
  by (simp add: gameStats_dayRangeUTC_def utc_oct4_noon utc_oct4 utc_oct5 newDate_def
        offset_oct4_probe js_sub_def roundDouble_def maxSafe_def maxTime_def window_oct4_def)

lemma announce_oct4: "announce sampleFromDate window_oct4 = None"
  by (simp add: announce_def sampleFromDate_def window_oct4_def maxTime_def)

theorem dayRangeUTC_single_offset_witness:
  "(1759636800000::int) - 1759550400000 = 86400000
     \<and> (\<exists>off. tzOffsetMsAt sampleZones (newDate (Date_UTC 2025 (10 - 1) 4 12 0 0 0))
                  ''America/Indiana/Indianapolis'' = Inr (Fin off)
           \<and> Date_UTC 2025 (10 - 1) 4 0 0 0 0 = Fin (1759550400000 + off)
           \<and> Date_UTC 2025 (10 - 1) (4 + 1) 0 0 0 0 = Fin (1759636800000 + off))"
proof -
  have h1: "(gameStats_dayRangeUTC sampleZones 2025 10 4 (Some ''America/Indiana/Indianapolis'')
               = Inr window_oct4
             \<and> ''America/Indiana/Indianapolis''
                 = (case Some ''America/Indiana/Indianapolis'' of
                      None \<Rightarrow> ''America/Indiana/Indianapolis'' | Some z \<Rightarrow> z))
          \<or> (stats_dayRangeUTC sampleZones 2025 10 4 (Some ''America/Indiana/Indianapolis'')
               = Inr window_oct4
             \<and> ''America/Indiana/Indianapolis'' = ''America/Indiana/Indianapolis'')"
    using gameStats_window_oct4 by simp
  have h2: "w_start window_oct4 = DateAt 1759550400000" by (simp add: window_oct4_def)
  have h3: "w_end window_oct4 = DateAt 1759636800000" by (simp add: window_oct4_def)
  show ?thesis by (rule dayRangeUTC_single_offset[OF h1 h2 h3])
qed

theorem dayRangeUTC_no_transition_24h_witness:
  "(1759636800000::int) - 1759550400000 = 86400000
   \<and> (\<exists>s' e'. gameStats_dayRangeUTC sampleZones 2025 10 4 (Some ''America/Indiana/Indianapolis'')
                  = Inr \<lparr>w_start = DateAt s', w_end = DateAt e'\<rparr>
              \<and> e' - s' = 86400000)"
proof -
  have h1: "((gameStats_dayRangeUTC sampleZones 2025 10 4 (Some ''America/Indiana/Indianapolis'')
                = Inr window_oct4
              \<and> ''America/Indiana/Indianapolis''
                  = (case Some ''America/Indiana/Indianapolis'' of
                       None \<Rightarrow> ''America/Indiana/Indianapolis'' | Some z \<Rightarrow> z))
            \<or> (stats_dayRangeUTC sampleZones 2025 10 4 (Some ''America/Indiana/Indianapolis'')
                  = Inr window_oct4
                \<and> ''America/Indiana/Indianapolis'' = ''America/Indiana/Indianapolis''))
          \<and> w_start window_oct4 = DateAt 1759550400000
          \<and> w_end window_oct4 = DateAt 1759636800000
          \<and> tzOffsetMsAt sampleZones (DateAt 1759550400000) ''America/Indiana/Indianapolis''
              = tzOffsetMsAt sampleZones (newDate (Date_UTC 2025 (10 - 1) 4 12 0 0 0))
                  ''America/Indiana/Indianapolis''"
    using gameStats_window_oct4
    by (simp add: window_oct4_def offset_oct4_start offset_oct4_probe utc_oct4_noon
          newDate_def maxTime_def)
  have h2: "- 200000 \<le> (2025::int) \<and> (2025::int) \<le> 200000 \<and> 1 \<le> (10::int) \<and> (10::int) \<le> 12
          \<and> 1 \<le> (4::int) \<and> (4::int) \<le> 31
          \<and> tzOffsetMsAt sampleZones (newDate (Date_UTC 2025 (10 - 1) 4 12 0 0 0))
               ''America/Indiana/Indianapolis'' = Inr (Fin (- 14400000))
          \<and> \<bar>- 14400000\<bar> \<le> msPerDay"
    by (simp add: offset_oct4_probe utc_oct4_noon newDate_def maxTime_def msPerDay_def)
  note th = dayRangeUTC_no_transition_24h[of sampleZones 2025 10 4
      "Some ''America/Indiana/Indianapolis''" window_oct4 "''America/Indiana/Indianapolis''"
      1759550400000 1759636800000 "- 14400000"]
  from th h1 have "(1759636800000::int) - 1759550400000 = 86400000" by blast
  moreover from th h2
  have "\<exists>s' e'. gameStats_dayRangeUTC sampleZones 2025 10 4 (Some ''America/Indiana/Indianapolis'')
                  = Inr \<lparr>w_start = DateAt s', w_end = DateAt e'\<rparr>
              \<and> e' - s' = 86400000" by blast
  ultimately show ?thesis by blast
qed

text \<open>9 March 2025: the clocks go forward at 07:00 UTC.\<close>

lemma utc_mar9_noon: "Date_UTC 2025 2 9 12 0 0 0 = Fin 1741521600000"
  by (simp add: utc_eval)

lemma utc_mar9: "Date_UTC 2025 2 9 0 0 0 0 = Fin 1741478400000"
  by (simp add: utc_eval)

lemma utc_mar10: "Date_UTC 2025 2 10 0 0 0 0 = Fin 1741564800000"
  by (simp add: utc_eval)

lemma offset_mar9_probe:
  "tzOffsetMsAt sampleZones (DateAt 1741521600000) ''America/Indiana/Indianapolis''
     = Inr (Fin (- 14400000))"
proof -
  have "wallClockUTC (1741521600000 + indianapolisOffset2025 1741521600000)
          = \<lparr>wc_year = 2025, wc_month = 3, wc_day = 9, wc_hour = 8, wc_minute = 0, wc_second = 0\<rparr>"
    by (simp add: indianapolisOffset2025_def wall_eval)
  moreover have "Date_UTC 2025 (3 - 1) 9 8 0 0 0 = Fin 1741507200000"
    by (simp add: utc_eval)
  ultimately show ?thesis
    using tzOffsetMsAt_Indianapolis[of 1741521600000 2025 3 9 8 0 0 1741507200000] by (simp add: maxSafe_def)
qed

lemma offset_mar9_utc_midnight:
  "tzOffsetMsAt sampleZones (DateAt 1741478400000) ''America/Indiana/Indianapolis''
     = Inr (Fin (- 18000000))"
proof -
  have "wallClockUTC (1741478400000 + indianapolisOffset2025 1741478400000)
          = \<lparr>wc_year = 2025, wc_month = 3, wc_day = 8, wc_hour = 19, wc_minute = 0, wc_second = 0\<rparr>"
    by (simp add: indianapolisOffset2025_def wall_eval)
  moreover have "Date_UTC 2025 (3 - 1) 8 19 0 0 0 = Fin 1741460400000"
    by (simp add: utc_eval)
  ultimately show ?thesis
    using tzOffsetMsAt_Indianapolis[of 1741478400000 2025 3 8 19 0 0 1741460400000] by (simp add: maxSafe_def)
qed

lemma offset_mar9_local_midnight:
  "tzOffsetMsAt sampleZones (DateAt 1741496400000) ''America/Indiana/Indianapolis''
     = Inr (Fin (- 18000000))"
proof -
  have "wallClockUTC (1741496400000 + indianapolisOffset2025 1741496400000)
          = \<lparr>wc_year = 2025, wc_month = 3, wc_day = 9, wc_hour = 0, wc_minute = 0, wc_second = 0\<rparr>"
    by (simp add: indianapolisOffset2025_def wall_eval)
  moreover have "Date_UTC 2025 (3 - 1) 9 0 0 0 0 = Fin 1741478400000"
    by (simp add: utc_eval)
  ultimately show ?thesis
    using tzOffsetMsAt_Indianapolis[of 1741496400000 2025 3 9 0 0 0 1741478400000] by (simp add: maxSafe_def)
qed

lemma offset_mar10_utc_midnight:
  "tzOffsetMsAt sampleZones (DateAt 1741564800000) ''America/Indiana/Indianapolis''
     = Inr (Fin (- 14400000))"
proof -
  have "wallClockUTC (1741564800000 + indianapolisOffset2025 1741564800000)
          = \<lparr>wc_year = 2025, wc_month = 3, wc_day = 9, wc_hour = 20, wc_minute = 0, wc_second = 0\<rparr>"
    by (simp add: indianapolisOffset2025_def wall_eval)
  moreover have "Date_UTC 2025 (3 - 1) 9 20 0 0 0 = Fin 1741550400000"
    by (simp add: utc_eval)
  ultimately show ?thesis
    using tzOffsetMsAt_Indianapolis[of 1741564800000 2025 3 9 20 0 0 1741550400000] by (simp add: maxSafe_def)
qed

lemma offset_mar10_local_midnight:
  "tzOffsetMsAt sampleZones (DateAt 1741579200000) ''America/Indiana/Indianapolis''
     = Inr (Fin (- 14400000))"
proof -
  have "wallClockUTC (1741579200000 + indianapolisOffset2025 1741579200000)
          = \<lparr>wc_year = 2025, wc_month = 3, wc_day = 10, wc_hour = 0, wc_minute = 0, wc_second = 0\<rparr>"
    by (simp add: indianapolisOffset2025_def wall_eval)
  moreover have "Date_UTC 2025 (3 - 1) 10 0 0 0 0 = Fin 1741564800000"
    by (simp add: utc_eval)
  ultimately show ?thesis
    using tzOffsetMsAt_Indianapolis[of 1741579200000 2025 3 10 0 0 0 1741564800000] by (simp add: maxSafe_def)
qed

lemma gameStats_window_mar9:
  "gameStats_dayRangeUTC sampleZones 2025 3 9 (Some ''America/Indiana/Indianapolis'')
     = Inr \<lparr>w_start = DateAt 1741492800000, w_end = DateAt 1741579200000\<rparr>"
  by (simp add: gameStats_dayRangeUTC_def utc_mar9_noon utc_mar9 utc_mar10 newDate_def
        offset_mar9_probe js_sub_def roundDouble_def maxSafe_def maxTime_def)

lemma localMidnight_mar9:
  "localMidnight sampleZones ''America/Indiana/Indianapolis'' 2025 3 9 = Inr (Fin 1741496400000)"
  by (simp add: localMidnight_def utc_mar9 newDate_def maxTime_def js_sub_def roundDouble_def maxSafe_def
        offset_mar9_utc_midnight offset_mar9_local_midnight)

lemma localMidnight_mar10:
  "localMidnight sampleZones ''America/Indiana/Indianapolis'' 2025 3 10 = Inr (Fin 1741579200000)"
  by (simp add: localMidnight_def utc_mar10 newDate_def maxTime_def js_sub_def roundDouble_def maxSafe_def
        offset_mar10_utc_midnight offset_mar10_local_midnight)

text \<open>
  C1, as stated, fails on a day with a transition. On 9 March 2025 the local day in
  America/Indiana/Indianapolis lasts 23 hours (82,800,000 ms, from the offsets at its two
  midnights), and both scripts return a window of 24 hours (86,400,000 ms), which starts
  one hour before the local midnight.
\<close>

theorem dayRangeUTC_spring_forward_counterexample:
  "gameStats_dayRangeUTC sampleZones 2025 3 9 (Some ''America/Indiana/Indianapolis'')
     = Inr \<lparr>w_start = DateAt 1741492800000, w_end = DateAt 1741579200000\<rparr>
   \<and> stats_dayRangeUTC sampleZones 2025 3 9 (Some ''America/Indiana/Indianapolis'')
     = Inr \<lparr>w_start = DateAt 1741492800000, w_end = DateAt 1741579200000\<rparr>
   \<and> js_sub (getTime (DateAt 1741579200000)) (getTime (DateAt 1741492800000)) = Fin 86400000
   \<and> localDayDuration sampleZones ''America/Indiana/Indianapolis'' 2025 3 9 = Inr (Fin 82800000)"
  using localMidnight_mar10
  by (simp add: stats_is_gameStats gameStats_window_mar9 localDayDuration_def
        localMidnight_mar9 js_sub_def roundDouble_def maxSafe_def)

text \<open>
  12 September 275760, the last day that starts within the range of \<open>Date\<close>, in a zone
  five hours behind UTC: the end of the window is beyond the range, an invalid date.
\<close>

lemma dayRangeUTC_last_day:
  "gameStats_dayRangeUTC sampleZones 275760 9 12 (Some ''Etc/GMT+5'')
     = Inr \<lparr>w_start = DateAt 8639999931600000, w_end = InvalidDate\<rparr>"
proof -
  have p: "Date_UTC 275760 8 12 12 0 0 0 = Fin 8639999956800000"
    by (simp add: utc_eval)
  have "wallClockUTC (8639999956800000 - 18000000)
          = \<lparr>wc_year = 275760, wc_month = 9, wc_day = 12, wc_hour = 7, wc_minute = 0, wc_second = 0\<rparr>"
    by (simp add: wall_eval)
  moreover have "Date_UTC 275760 (9 - 1) 12 7 0 0 0 = Fin 8639999938800000"
    by (simp add: utc_eval)
  ultimately have off: "tzOffsetMsAt sampleZones (DateAt 8639999956800000) ''Etc/GMT+5''
                          = Inr (Fin (- 18000000))"
    by (simp add: tzOffsetMsAt_def sampleZones_def js_sub_def roundDouble_def maxSafe_def)
  have a: "Date_UTC 275760 8 12 0 0 0 0 = Fin 8639999913600000"
    by (simp add: utc_eval)
  have b: "Date_UTC 275760 8 13 0 0 0 0 = Fin 8640000000000000"
    by (simp add: utc_eval)
  show ?thesis
    by (simp add: gameStats_dayRangeUTC_def p a b off newDate_def js_sub_def roundDouble_def maxSafe_def maxTime_def)
qed

text \<open>
  C10: \<open>dayRangeUTC\<close> of stats-today.ts does not read its \<open>timeZone\<close> parameter: for
  every year, month and day and every two time zone arguments (left out, valid or invalid)
  the results are equal, exception or window alike, and they are the result for
  \<open>"America/Indiana/Indianapolis"\<close>. So a time zone name passed to it is never the cause of
  an exception: for a name the platform does not know it returns the window of 4 October
  2025, where \<open>dayRangeUTC\<close> of gameStats-today.ts throws a \<open>RangeError\<close>.
\<close>

theorem stats_dayRangeUTC_ignores_timeZone:
  "stats_dayRangeUTC tzd y m d tz1 = stats_dayRangeUTC tzd y m d tz2
   \<and> stats_dayRangeUTC tzd y m d tz1
       = gameStats_dayRangeUTC tzd y m d (Some ''America/Indiana/Indianapolis'')
   \<and> stats_dayRangeUTC sampleZones 2025 10 4 (Some ''Mars/Olympus_Mons'') = Inr window_oct4
   \<and> gameStats_dayRangeUTC sampleZones 2025 10 4 (Some ''Mars/Olympus_Mons'') = Inl RangeError"
proof (intro conjI)
  show "stats_dayRangeUTC tzd y m d tz1 = stats_dayRangeUTC tzd y m d tz2"
    by (simp add: stats_dayRangeUTC_def)
next
  show "stats_dayRangeUTC tzd y m d tz1
          = gameStats_dayRangeUTC tzd y m d (Some ''America/Indiana/Indianapolis'')"
    by (simp add: stats_dayRangeUTC_def gameStats_dayRangeUTC_def Let_def)
next
  show "stats_dayRangeUTC sampleZones 2025 10 4 (Some ''Mars/Olympus_Mons'') = Inr window_oct4"
    by (simp add: stats_is_gameStats gameStats_window_oct4)
next
  have "sampleZones ''Mars/Olympus_Mons'' = None"
    by (simp add: sampleZones_def)
  then show "gameStats_dayRangeUTC sampleZones 2025 10 4 (Some ''Mars/Olympus_Mons'')
               = Inl RangeError"
    by (simp add: gameStats_dayRangeUTC_def tzOffsetMsAt_def)
qed

section \<open>Properties of the watcher\<close>

lemma filterE_filter:
  assumes "\<And>x. p x = Inr (q x)"
  shows "filterE p xs = Inr (filter q xs)"
  by (induction xs) (simp_all add: assms)

lemma docInstant_Some:
  "docInstant parse d = Some t \<longleftrightarrow> toDateStrict parse (field d ''submittedAt'') = Inr (Some (DateAt t))"
  by (auto simp: docInstant_def split: sum.splits option.splits jsdate.splits)

lemma sortKey_docInstant: "docInstant parse d = Some t \<Longrightarrow> sortKey parse d = t"
  by (simp add: docInstant_Some sortKey_def)

lemma isFresh_newerThan: "isFresh parse (Some (DateAt s)) d = Inr (newerThan parse s d)"
proof -
  obtain r where r: "toDateStrict parse (field d ''submittedAt'') = Inr r"
    using toDateStrict_returns by blast
  show ?thesis
  proof (cases r)
    case None
    with r show ?thesis by (simp add: isFresh_def newerThan_def docInstant_def)
  next
    case (Some a)
    with r show ?thesis
      by (cases a) (simp_all add: isFresh_def newerThan_def docInstant_def)
  qed
qed

lemma js_gt_NaN [simp]: "js_gt a NaN = False"
  by (cases a) simp_all

lemma isFresh_InvalidDate: "isFresh parse (Some InvalidDate) d = Inr False"
proof -
  obtain r where r: "toDateStrict parse (field d ''submittedAt'') = Inr r"
    using toDateStrict_returns by blast
  then show ?thesis
    by (cases r) (simp_all add: isFresh_def)
qed

lemma callback_first:
  "onSnapshot_callback parse None (d0 # ds)
     = Inr ([], (case docInstant parse d0 of None \<Rightarrow>
                   (case toDateStrict parse (field d0 ''submittedAt'') of Inr (Some x) \<Rightarrow> Some x | _ \<Rightarrow> None)
                 | Some t \<Rightarrow> Some (DateAt t)))"
proof -
  obtain r where r: "toDateStrict parse (field d0 ''submittedAt'') = Inr r"
    using toDateStrict_returns by blast
  then show ?thesis
    by (auto simp: onSnapshot_callback_def docInstant_def split: option.splits jsdate.splits)
qed

lemma callback_later:
  "onSnapshot_callback parse (Some (DateAt s)) nowDocs
     = Inr (sort_key (sortKey parse) (filter (newerThan parse s) nowDocs),
            (if filter (newerThan parse s) nowDocs = [] then Some (DateAt s)
             else Some (DateAt (sortKey parse
                    (last (sort_key (sortKey parse) (filter (newerThan parse s) nowDocs)))))))"
proof (cases nowDocs)
  case Nil
  then show ?thesis by (simp add: onSnapshot_callback_def)
next
  case (Cons d0 rest)
  let ?kept = "filter (newerThan parse s) nowDocs"
  let ?fresh = "sort_key (sortKey parse) ?kept"
  obtain r where r: "toDateStrict parse (field d0 ''submittedAt'') = Inr r"
    using toDateStrict_returns by blast
  have kept: "filterE (isFresh parse (Some (DateAt s))) nowDocs = Inr ?kept"
    by (rule filterE_filter) (rule isFresh_newerThan)
  show ?thesis
  proof (cases "?kept = []")
    case True
    with Cons r kept show ?thesis
      by (simp add: onSnapshot_callback_def)
  next
    case False
    then have ne: "?fresh \<noteq> []" by (metis length_0_conv length_sort)
    then have "last ?fresh \<in> set ?fresh" by (rule last_in_set)
    then have "newerThan parse s (last ?fresh)" by simp
    then obtain t where t: "docInstant parse (last ?fresh) = Some t" "s < t"
      by (auto simp: newerThan_def split: option.splits)
    then have l: "toDateStrict parse (field (last ?fresh) ''submittedAt'') = Inr (Some (DateAt t))"
      by (simp add: docInstant_Some)
    from t have k: "sortKey parse (last ?fresh) = t" by (simp add: sortKey_docInstant)
    from Cons r kept False ne l k t(2) show ?thesis
      by (simp add: onSnapshot_callback_def Let_def)
  qed
qed

lemma callback_invalid:
  "onSnapshot_callback parse (Some InvalidDate) nowDocs = Inr ([], Some InvalidDate)"
proof (cases nowDocs)
  case Nil
  then show ?thesis by (simp add: onSnapshot_callback_def)
next
  case (Cons d0 rest)
  obtain r where r: "toDateStrict parse (field d0 ''submittedAt'') = Inr r"
    using toDateStrict_returns by blast
  have "filterE (isFresh parse (Some InvalidDate)) nowDocs = Inr (filter (\<lambda>d. False) nowDocs)"
    by (rule filterE_filter) (rule isFresh_InvalidDate)
  with Cons r show ?thesis
    by (simp add: onSnapshot_callback_def)
qed

lemma initialLoad_lastSeen:
  "docInstant parse d0 = Some t \<Longrightarrow> initialLoad parse (d0 # ds) = Inr (d0 # ds, Some (DateAt t))"
  by (simp add: initialLoad_def docInstant_Some)

lemma lastSeen_le_refl: "lastSeen_le s s"
proof (cases s)
  case None
  then show ?thesis by simp
next
  case (Some a)
  then show ?thesis by (cases a) simp_all
qed

lemma lastSeen_le_trans: "lastSeen_le a b \<Longrightarrow> lastSeen_le b c \<Longrightarrow> lastSeen_le a c"
  by (cases "(a, b)" rule: lastSeen_le.cases; cases "(b, c)" rule: lastSeen_le.cases) auto

lemma lastSeenAfter_mono: "lastSeen_le s (lastSeenAfter parse s nowDocs)"
proof (cases s)
  case None
  then show ?thesis by simp
next
  case (Some a)
  show ?thesis
  proof (cases a)
    case InvalidDate
    with Some show ?thesis by (simp add: lastSeenAfter_def callback_invalid)
  next
    case (DateAt t)
    let ?kept = "filter (newerThan parse t) nowDocs"
    let ?fresh = "sort_key (sortKey parse) ?kept"
    show ?thesis
    proof (cases "?kept = []")
      case True
      with Some DateAt show ?thesis by (simp add: lastSeenAfter_def callback_later)
    next
      case False
      then have "?fresh \<noteq> []" by (metis length_0_conv length_sort)
      then have "last ?fresh \<in> set ?fresh" by (rule last_in_set)
      then have "newerThan parse t (last ?fresh)" by simp
      then obtain u where "docInstant parse (last ?fresh) = Some u" "t < u"
        by (auto simp: newerThan_def split: option.splits)
      then have "t \<le> sortKey parse (last ?fresh)" by (simp add: sortKey_docInstant)
      with Some DateAt False show ?thesis by (simp add: lastSeenAfter_def callback_later)
    qed
  qed
qed

lemma watch_mono: "lastSeen_le s (watch parse s snapshots)"
proof (induction snapshots arbitrary: s)
  case Nil
  then show ?case by (simp add: watch_def lastSeen_le_refl)
next
  case (Cons b bs)
  have "lastSeen_le s (lastSeenAfter parse s b)" by (rule lastSeenAfter_mono)
  moreover have "lastSeen_le (lastSeenAfter parse s b) (watch parse (lastSeenAfter parse s b) bs)"
    by (rule Cons.IH)
  ultimately show ?case
    by (auto simp: watch_def intro: lastSeen_le_trans)
qed

lemma onSnapshot_callback_returns:
  "\<exists>fresh. onSnapshot_callback parse s nowDocs = Inr (fresh, lastSeenAfter parse s nowDocs)"
proof (cases s)
  case None
  show ?thesis
  proof (cases nowDocs)
    case Nil
    with None show ?thesis by (simp add: onSnapshot_callback_def lastSeenAfter_def)
  next
    case (Cons d0 rest)
    obtain r where "toDateStrict parse (field d0 ''submittedAt'') = Inr r"
      using toDateStrict_returns by blast
    with None Cons show ?thesis by (simp add: onSnapshot_callback_def lastSeenAfter_def)
  qed
next
  case (Some a)
  then show ?thesis
    by (cases a) (simp_all add: lastSeenAfter_def callback_invalid callback_later)
qed

lemma watch_append: "watch parse s (before @ after) = watch parse (watch parse s before) after"
  by (simp add: watch_def)

text \<open>
  C6: the tracked state never decreases. A run of the callback returns, from any state
  and on any snapshot; after the run, and after the runs on any sequence of snapshots,
  whatever the order of their documents' times relative to the state, \<open>lastSeen\<close> is
  greater than or equal to its value before.
\<close>

theorem lastSeen_monotone:
  "(\<exists>fresh. onSnapshot_callback parse s nowDocs = Inr (fresh, lastSeenAfter parse s nowDocs))
   \<and> lastSeen_le s (lastSeenAfter parse s nowDocs)
   \<and> lastSeen_le (watch parse s before) (watch parse s (before @ after))"
proof (intro conjI)
  show "\<exists>fresh. onSnapshot_callback parse s nowDocs = Inr (fresh, lastSeenAfter parse s nowDocs)"
    by (rule onSnapshot_callback_returns)
next
  show "lastSeen_le s (lastSeenAfter parse s nowDocs)"
    by (rule lastSeenAfter_mono)
next
  have "lastSeen_le (watch parse s before) (watch parse (watch parse s before) after)"
    by (rule watch_mono)
  then show "lastSeen_le (watch parse s before) (watch parse s (before @ after))"
    by (simp add: watch_append)
qed

lemma toDateStrict_number:
  "\<bar>t\<bar> \<le> maxTime \<Longrightarrow> toDateStrict parse (JNum (Fin t)) = Inr (Some (DateAt t))"
  by (auto simp: toDateStrict_def isFSTimestampMethod_def isFSTimestampPojo_def newDate_def
        nullIfInvalid_def maxTime_def)

lemma docInstant_d1: "docInstant sampleParse d1 = Some 5"
  by (simp add: docInstant_def d1_def field_def toDateStrict_number maxTime_def)

lemma docInstant_d2: "docInstant sampleParse d2 = Some 3"
  by (simp add: docInstant_def d2_def field_def toDateStrict_number maxTime_def)

lemma docInstant_d3: "docInstant sampleParse d3 = Some 7"
  by (simp add: docInstant_def d3_def field_def toDateStrict_number maxTime_def)

lemmas docInstant_samples = docInstant_d1 docInstant_d2 docInstant_d3

lemma callback_first_sample:
  "onSnapshot_callback sampleParse None [d1, d2] = Inr ([], Some (DateAt 5))"
  by (simp add: callback_first docInstant_samples)

lemma callback_second_sample:
  "onSnapshot_callback sampleParse (Some (DateAt 5)) [d3, d1, d2] = Inr ([d3], Some (DateAt 7))"
  by (simp add: callback_later newerThan_def docInstant_samples sortKey_docInstant)

lemma callback_stale_sample:
  "onSnapshot_callback sampleParse (Some (DateAt 9)) [d3, d1, d2] = Inr ([], Some (DateAt 9))"
  by (simp add: callback_later newerThan_def docInstant_samples)

lemma toDateStrict_d7: "toDateStrict sampleParse (field d7 ''submittedAt'') = Inr None"
  by (simp add: d7_def field_def toDateStrict_def isFSTimestampMethod_def
        isFSTimestampPojo_def sampleParse_def newDate_def nullIfInvalid_def)

lemma docInstant_d7: "docInstant sampleParse d7 = None"
  by (simp add: docInstant_def toDateStrict_d7)

text \<open>
  C2, as stated, fails: on its first observation the callback does not look for the
  newest instant of the batch, it takes the first document's. A batch \<open>[d2, d1]\<close> with
  the older document first records 3, and the newest instant is 5. A batch in which the
  first document's \<open>submittedAt\<close> is no date (a text sorts before every timestamp in a
  descending Firestore order) records nothing, and the newest instant is 7.
\<close>

theorem onSnapshot_callback_first_document_counterexample:
  "onSnapshot_callback sampleParse None [d2, d1] = Inr ([], Some (DateAt 3))
   \<and> newestInstant sampleParse [d2, d1] = Some 5
   \<and> onSnapshot_callback sampleParse None [d7, d3, d1] = Inr ([], None)
   \<and> newestInstant sampleParse [d7, d3, d1] = Some 7"
  by (simp add: callback_first docInstant_samples docInstant_d7 toDateStrict_d7)

text \<open>
  C2, amended: on the first observation of a non-empty snapshot (\<open>lastSeen\<close> is \<open>null\<close>)
  the callback prints nothing and records what \<open>toDateStrict\<close> makes of the
  \<open>submittedAt\<close> of the first document: its instant when it has one (the newest of the
  batch when the batch is ordered newest first, as the live query asks), and nothing
  (\<open>lastSeen\<close> stays \<open>null\<close>) when it has none. On every later observation (\<open>lastSeen\<close> is
  an instant \<open>s\<close>) it prints exactly the documents of the snapshot whose \<open>submittedAt\<close>
  strictly exceeds \<open>s\<close>, oldest first, and \<open>lastSeen\<close> becomes the instant of the last
  one printed. With \<open>d1\<close> at 5, \<open>d2\<close> at 3 and \<open>d3\<close> at 7: the first observation of
  \<open>[d1, d2]\<close> prints nothing and sets the state to 5; the second, of \<open>[d3, d1, d2]\<close>,
  prints \<open>[d3]\<close> and sets the state to 7.
\<close>

theorem onSnapshot_callback_fresh:
  "(\<exists>r. toDateStrict parse (field d0 ''submittedAt'') = Inr r
        \<and> onSnapshot_callback parse None (d0 # ds) = Inr ([], r))
   \<and> (docInstant parse d0 = Some t
        \<longrightarrow> onSnapshot_callback parse None (d0 # ds) = Inr ([], Some (DateAt t)))
   \<and> (toDateStrict parse (field d0 ''submittedAt'') = Inr None
        \<longrightarrow> onSnapshot_callback parse None (d0 # ds) = Inr ([], None))
   \<and> (\<exists>fresh lastSeen'.
         onSnapshot_callback parse (Some (DateAt s)) nowDocs = Inr (fresh, lastSeen')
         \<and> mset fresh = filter_mset (newerThan parse s) (mset nowDocs)
         \<and> sorted (map (sortKey parse) fresh)
         \<and> (\<forall>d \<in> set fresh. docInstant parse d = Some (sortKey parse d))
         \<and> fresh = sort_key (sortKey parse) (filter (newerThan parse s) nowDocs)
         \<and> lastSeen' = (if fresh = [] then Some (DateAt s)
                         else Some (DateAt (sortKey parse (last fresh)))))
   \<and> onSnapshot_callback sampleParse None [d1, d2] = Inr ([], Some (DateAt 5))
   \<and> onSnapshot_callback sampleParse (Some (DateAt 5)) [d3, d1, d2]
       = Inr ([d3], Some (DateAt 7))"
proof (intro conjI impI)
  from toDateStrict_returns obtain r where r: "toDateStrict parse (field d0 ''submittedAt'') = Inr r"
    by blast
  then have "onSnapshot_callback parse None (d0 # ds) = Inr ([], r)"
    by (cases r) (simp_all add: onSnapshot_callback_def)
  with r show "\<exists>r. toDateStrict parse (field d0 ''submittedAt'') = Inr r
        \<and> onSnapshot_callback parse None (d0 # ds) = Inr ([], r)" by blast
next
  assume "docInstant parse d0 = Some t"
  then show "onSnapshot_callback parse None (d0 # ds) = Inr ([], Some (DateAt t))"
    by (simp add: callback_first)
next
  assume "toDateStrict parse (field d0 ''submittedAt'') = Inr None"
  then show "onSnapshot_callback parse None (d0 # ds) = Inr ([], None)"
    by (simp add: onSnapshot_callback_def)
next
  let ?fresh = "sort_key (sortKey parse) (filter (newerThan parse s) nowDocs)"
  have "mset ?fresh = filter_mset (newerThan parse s) (mset nowDocs)" by simp
  moreover have "sorted (map (sortKey parse) ?fresh)" by simp
  moreover have "\<forall>d \<in> set ?fresh. docInstant parse d = Some (sortKey parse d)"
  proof
    fix d assume "d \<in> set ?fresh"
    then have "newerThan parse s d" by simp
    then obtain u where u: "docInstant parse d = Some u"
      by (auto simp: newerThan_def split: option.splits)
    then have "sortKey parse d = u" by (rule sortKey_docInstant)
    with u show "docInstant parse d = Some (sortKey parse d)" by simp
  qed
  moreover have "(filter (newerThan parse s) nowDocs = []) = (?fresh = [])"
    by (metis length_0_conv length_sort)
  ultimately show "\<exists>fresh lastSeen'.
         onSnapshot_callback parse (Some (DateAt s)) nowDocs = Inr (fresh, lastSeen')
         \<and> mset fresh = filter_mset (newerThan parse s) (mset nowDocs)
         \<and> sorted (map (sortKey parse) fresh)
         \<and> (\<forall>d \<in> set fresh. docInstant parse d = Some (sortKey parse d))
         \<and> fresh = sort_key (sortKey parse) (filter (newerThan parse s) nowDocs)
         \<and> lastSeen' = (if fresh = [] then Some (DateAt s)
                         else Some (DateAt (sortKey parse (last fresh))))"
    using callback_later[of parse s nowDocs] by auto
next
  show "onSnapshot_callback sampleParse None [d1, d2] = Inr ([], Some (DateAt 5))"
    by (rule callback_first_sample)
next
  show "onSnapshot_callback sampleParse (Some (DateAt 5)) [d3, d1, d2]
          = Inr ([d3], Some (DateAt 7))"
    by (rule callback_second_sample)
qed

theorem onSnapshot_callback_fresh_witness:
  "onSnapshot_callback sampleParse None (d1 # [d2]) = Inr ([], Some (DateAt 5))
   \<and> onSnapshot_callback sampleParse None (d7 # [d3, d1]) = Inr ([], None)
   \<and> (\<exists>fresh lastSeen'.
         onSnapshot_callback sampleParse (Some (DateAt 5)) [d3, d1, d2] = Inr (fresh, lastSeen')
         \<and> fresh = sort_key (sortKey sampleParse) (filter (newerThan sampleParse 5) [d3, d1, d2])
         \<and> lastSeen' = (if fresh = [] then Some (DateAt 5)
                         else Some (DateAt (sortKey sampleParse (last fresh)))))"
proof -
  have h1: "docInstant sampleParse d1 = Some 5" by (rule docInstant_d1)
  have h2: "toDateStrict sampleParse (field d7 ''submittedAt'') = Inr None"
    by (rule toDateStrict_d7)
  note a = onSnapshot_callback_fresh[of sampleParse d1 "[d2]" 5 5 "[d3, d1, d2]"]
  note b = onSnapshot_callback_fresh[of sampleParse d7 "[d3, d1]" 0 5 "[d3, d1, d2]"]
  from a h1 have "onSnapshot_callback sampleParse None (d1 # [d2]) = Inr ([], Some (DateAt 5))"
    by blast
  moreover from b h2 have "onSnapshot_callback sampleParse None (d7 # [d3, d1]) = Inr ([], None)"
    by blast
  moreover from a have "\<exists>fresh lastSeen'.
         onSnapshot_callback sampleParse (Some (DateAt 5)) [d3, d1, d2] = Inr (fresh, lastSeen')
         \<and> fresh = sort_key (sortKey sampleParse) (filter (newerThan sampleParse 5) [d3, d1, d2])
         \<and> lastSeen' = (if fresh = [] then Some (DateAt 5)
                         else Some (DateAt (sortKey sampleParse (last fresh))))"
    by blast
  ultimately show ?thesis by blast
qed

section \<open>Properties of the gameStats report and of the exits\<close>

lemma probeFields_skip:
  assumes "\<forall>g \<in> set pre. queryFailsOrEmpty getDocs s e g"
  shows "probeFields getDocs s e (pre @ rest) =
           (case probeFields getDocs s e rest of
              (u, ds, sent) \<Rightarrow> (u, ds, map (\<lambda>g. rangeQuery g s e) pre @ sent))"
  using assms
proof (induction pre)
  case Nil
  then show ?case by simp
next
  case (Cons g pre)
  then have "queryFailsOrEmpty getDocs s e g" by simp
  with Cons show ?case
    by (cases "getDocs (rangeQuery g s e)")
       (auto simp: queryFailsOrEmpty_def Let_def split: prod.splits)
qed

lemma probeFields_none:
  assumes "\<forall>g \<in> set cands. queryFailsOrEmpty getDocs s e g"
  shows "probeFields getDocs s e cands = (None, [], map (\<lambda>g. rangeQuery g s e) cands)"
  using probeFields_skip[OF assms, of "[]"] by simp

lemma probeFields_accept:
  assumes "getDocs (rangeQuery f s e) = Inr snap" and "snap \<noteq> []"
  shows "probeFields getDocs s e (f # post) = (Some f, snap, [rangeQuery f s e])"
  using assms by (simp add: Let_def)

lemma probeFields_found:
  assumes "\<not> (\<forall>g \<in> set cands. queryFailsOrEmpty getDocs s e g)"
  shows "\<exists>f snap sent. probeFields getDocs s e cands = (Some f, snap, sent) \<and> snap \<noteq> []"
  using assms
proof (induction cands)
  case Nil
  then show ?case by simp
next
  case (Cons g cands)
  show ?case
  proof (cases "queryFailsOrEmpty getDocs s e g")
    case True
    with Cons.prems have "\<not> (\<forall>g \<in> set cands. queryFailsOrEmpty getDocs s e g)" by simp
    from Cons.IH[OF this] obtain f snap sent where
      "probeFields getDocs s e cands = (Some f, snap, sent)" "snap \<noteq> []" by blast
    with True show ?thesis
      by (cases "getDocs (rangeQuery g s e)") (auto simp: queryFailsOrEmpty_def Let_def)
  next
    case False
    then obtain snap where "getDocs (rangeQuery g s e) = Inr snap" "snap \<noteq> []"
      by (cases "getDocs (rangeQuery g s e)") (auto simp: queryFailsOrEmpty_def)
    then show ?thesis by (simp add: Let_def)
  qed
qed

text \<open>
  C3: the candidates are tried in order, each with a range query on \<open>gameStats\<close> over
  the half-open window (\<open>>= start\<close>, \<open>< end\<close>). When the queries on the candidates before
  \<open>f\<close> reject or return no document and the query on \<open>f\<close> returns at least one, the
  result is \<open>f\<close> with exactly the documents of that snapshot, and the queries sent are
  those on the candidates up to \<open>f\<close>: no later candidate is queried, and no rejection
  ends the selection. For the candidates \<open>A\<close>, \<open>B\<close>, \<open>C\<close> with \<open>A\<close> rejecting and \<open>B\<close>
  returning two documents, the field is \<open>B\<close>, the documents are those two, and \<open>C\<close> is
  not queried.
\<close>

theorem probeFields_first_success:
  assumes "\<forall>g \<in> set pre. queryFailsOrEmpty getDocs startTs endTs g"
    and "getDocs (rangeQuery f startTs endTs) = Inr snap"
    and "snap \<noteq> []"
  shows "probeFields getDocs startTs endTs (pre @ f # post)
           = (Some f, snap, map (\<lambda>g. rangeQuery g startTs endTs) (pre @ [f]))
       \<and> selectDocs parse toNum getDocs startTs endTs (pre @ f # post)
           = Inr (Some f, snap, map (\<lambda>g. rangeQuery g startTs endTs) (pre @ [f]))
       \<and> rangeQuery f startTs endTs = Query ''gameStats'' [(f, ''>='', startTs), (f, ''<'', endTs)]"
proof -
  have p: "probeFields getDocs startTs endTs (pre @ f # post)
             = (Some f, snap, map (\<lambda>g. rangeQuery g startTs endTs) (pre @ [f]))"
    using probeFields_skip[OF assms(1), of "f # post"]
      probeFields_accept[of getDocs f startTs endTs snap post] assms(2,3)
    by simp
  moreover from p assms(3) have "selectDocs parse toNum getDocs startTs endTs (pre @ f # post)
           = Inr (Some f, snap, map (\<lambda>g. rangeQuery g startTs endTs) (pre @ [f]))"
    by (simp add: selectDocs_def)
  moreover have "rangeQuery f startTs endTs = Query ''gameStats'' [(f, ''>='', startTs), (f, ''<'', endTs)]"
    by (simp add: rangeQuery_def)
  ultimately show ?thesis by blast
qed

theorem probeFields_first_success_witness:
  "probeFields abcStore (w_start window_oct4) (w_end window_oct4) ([''A''] @ ''B'' # [''C''])
     = (Some ''B'', [d1, d2],
        map (\<lambda>g. rangeQuery g (w_start window_oct4) (w_end window_oct4)) ([''A''] @ [''B'']))
   \<and> selectDocs sampleParse sampleToNum abcStore (w_start window_oct4) (w_end window_oct4)
        ([''A''] @ ''B'' # [''C''])
     = Inr (Some ''B'', [d1, d2],
        map (\<lambda>g. rangeQuery g (w_start window_oct4) (w_end window_oct4)) ([''A''] @ [''B'']))
   \<and> rangeQuery ''B'' (w_start window_oct4) (w_end window_oct4)
     = Query ''gameStats'' [(''B'', ''>='', w_start window_oct4), (''B'', ''<'', w_end window_oct4)]"
proof -
  have h1: "\<forall>g \<in> set [''A'']. queryFailsOrEmpty abcStore (w_start window_oct4) (w_end window_oct4) g"
    by (simp add: queryFailsOrEmpty_def abcStore_def rangeQuery_def)
  have h2: "abcStore (rangeQuery ''B'' (w_start window_oct4) (w_end window_oct4)) = Inr [d1, d2]"
    by (simp add: abcStore_def rangeQuery_def)
  have h3: "[d1, d2] \<noteq> []" by simp
  show ?thesis
    by (rule probeFields_first_success[OF h1 h2 h3])
qed

text \<open>
  The scan of a document returns \<open>false\<close> exactly when every candidate field that is
  truthy converts, without an exception, to no date or to a date outside the window.
\<close>

lemma scanFields_None_iff:
  "scanFields parse toNum startTs endTs d cands = Inr None \<longleftrightarrow>
     (\<forall>f \<in> set cands. truthy (field d f) \<longrightarrow>
        (\<exists>dt. clientDate parse toNum (field d f) = Inr dt \<and> \<not> inWindow dt startTs endTs))"
proof (induction cands)
  case Nil
  then show ?case by simp
next
  case (Cons f fs)
  show ?case
  proof (cases "truthy (field d f)")
    case False
    with Cons show ?thesis by (simp add: Let_def)
  next
    case True
    show ?thesis
    proof (cases "clientDate parse toNum (field d f)")
      case (Inl e)
      with True show ?thesis by (simp add: Let_def)
    next
      case (Inr dt)
      with True Cons show ?thesis by (simp add: Let_def)
    qed
  qed
qed

lemma filterInRange_none:
  assumes "\<forall>d \<in> set all. scanFields parse toNum s e d cands = Inr None"
  shows "filterInRange parse toNum s e cands all u = Inr ([], u)"
  using assms by (induction all) simp_all

lemma selectDocs_fallback_all:
  assumes "\<forall>f \<in> set cands. queryFailsOrEmpty getDocs s e f"
    and "getDocs (Query ''gameStats'' []) = Inr all"
    and "\<forall>d \<in> set all. scanFields parse toNum s e d cands = Inr None"
  shows "selectDocs parse toNum getDocs s e cands
           = Inr (None, all, map (\<lambda>f. rangeQuery f s e) cands @ [Query ''gameStats'' []])"
  using probeFields_none[OF assms(1)] assms(2) filterInRange_none[OF assms(3), of None]
  by (simp add: selectDocs_def)

lemma window_oct4_bounds:
  "w_start window_oct4 = DateAt 1759550400000" "w_end window_oct4 = DateAt 1759636800000"
  by (simp_all add: window_oct4_def)

lemma clientDate_number:
  "\<bar>t\<bar> \<le> maxTime \<Longrightarrow> clientDate parse toNum (JNum (Fin t)) = Inr (Some (DateAt t))"
  by (simp add: clientDate_def getPropOpt_def newDate_def nullIfInvalid_def)

lemma scanFields_d1:
  "scanFields sampleParse sampleToNum (w_start window_oct4) (w_end window_oct4) d1 TIME_FIELDS
     = Inr None"
  by (simp add: TIME_FIELDS_def d1_def field_def clientDate_number maxTime_def inWindow_def
        window_oct4_bounds js_ge_def js_lt_def)

lemma scanFields_d2:
  "scanFields sampleParse sampleToNum (w_start window_oct4) (w_end window_oct4) d2 TIME_FIELDS
     = Inr None"
  by (simp add: TIME_FIELDS_def d2_def field_def clientDate_number maxTime_def inWindow_def
        window_oct4_bounds js_ge_def js_lt_def)

lemma scanFields_d4:
  "scanFields sampleParse sampleToNum (w_start window_oct4) (w_end window_oct4) d4 TIME_FIELDS
     = Inr None"
  by (simp add: TIME_FIELDS_def d4_def field_def)

lemma unindexedStore_range:
  "queryFailsOrEmpty unindexedStore s e f"
  by (simp add: queryFailsOrEmpty_def unindexedStore_def rangeQuery_def)

lemma buildRows_unindexed:
  "map row_email (buildRows sampleToNum rejectingUsers Map.empty [d1, d2, d4])
     = [JStr ''(no email)'', JStr ''(no email)'', JStr ''(error)'']"
  by (simp add: d1_def d2_def d4_def field_def getUserEmail_def rejectingUsers_def nullish_def)

lemma printTable_tableDisplay:
  "printTable tableDisplay rows =
     (if list_all (\<lambda>v. typeof v = ''string'') (map row_email rows) then None
      else Some TypeError)"
  by (simp add: printTable_def tableDisplay_def list.pred_map comp_def)

lemma printTable_unindexed:
  "printTable tableDisplay (buildRows sampleToNum rejectingUsers Map.empty [d1, d2, d4]) = None"
  unfolding printTable_tableDisplay buildRows_unindexed by simp

lemma bindE_Inl_iff:
  assumes "\<And>a p. \<exists>r. k a p = Inr r"
  shows "bindE x (\<lambda>a. bindE (f a) (k a)) = Inl e \<longleftrightarrow> bindE x f = Inl e"
proof (cases x)
  case (Inl e')
  then show ?thesis by simp
next
  case (Inr a)
  show ?thesis
  proof (cases "f a")
    case (Inl e')
    with Inr show ?thesis by simp
  next
    case r: (Inr p)
    from assms obtain q where "k a p = Inr q" by blast
    with Inr r show ?thesis by simp
  qed
qed

lemma selectDocs_Inl_iff:
  "selectDocs parse toNum getDocs s e cands = Inl err \<longleftrightarrow>
     (\<forall>f \<in> set cands. queryFailsOrEmpty getDocs s e f)
     \<and> bindE (getDocs (Query ''gameStats'' []))
              (\<lambda>all. filterInRange parse toNum s e cands all None) = Inl err"
proof (cases "\<forall>f \<in> set cands. queryFailsOrEmpty getDocs s e f")
  case True
  let ?k = "\<lambda>all. \<lambda>(inRange, u). Inr (u, if inRange \<noteq> [] then inRange else all,
                        map (\<lambda>g. rangeQuery g s e) cands @ [Query ''gameStats'' []])
                     :: jserror + (string option \<times> doc list \<times> fsquery list)"
  have "\<And>a p. \<exists>r. ?k a p = Inr r"
    by (simp add: case_prod_beta)
  then have "bindE (getDocs (Query ''gameStats'' []))
          (\<lambda>all. bindE (filterInRange parse toNum s e cands all None) (?k all)) = Inl err
        \<longleftrightarrow> bindE (getDocs (Query ''gameStats'' []))
              (\<lambda>all. filterInRange parse toNum s e cands all None) = Inl err"
    by (rule bindE_Inl_iff)
  with True probeFields_none[OF True] show ?thesis
    by (simp add: selectDocs_def)
next
  case False
  from probeFields_found[OF False] obtain f snap sent where
    "probeFields getDocs s e cands = (Some f, snap, sent)" "snap \<noteq> []" by blast
  with False show ?thesis by (simp add: selectDocs_def)
qed

text \<open>
  The conversion of the client-side filter calls a truthy \<open>toDate\<close> without asking
  whether it is a function, where \<open>toDateStrict\<close> asks.
\<close>

lemma clientDate_toDate_not_a_function:
  "clientDate parse toNum (JObj [(''toDate'', JStr ''soon'')]) = Inl TypeError"
  by (simp add: clientDate_def getPropOpt_def callMethod_def)

lemma toDateStrict_toDate_not_a_function:
  "toDateStrict parse (JObj [(''toDate'', JStr ''soon'')]) = Inr None"
  by (simp add: toDateStrict_def isFSTimestampMethod_def isFSTimestampPojo_def)

lemma toDateStrict_undefined: "toDateStrict parse JUndefined = Inr None"
  by (simp add: toDateStrict_def)

text \<open>
  With \<open>d5 = {id: "d5", createdAt: {toDate: "soon"}}\<close> as the whole collection and a
  store that rejects every range query: \<open>toDateStrict\<close> returns \<open>null\<close> on each of the
  five candidate fields, the client-side filter calls \<open>v.toDate()\<close> on the value of
  \<open>createdAt\<close>, which throws a \<open>TypeError\<close>, and the \<open>catch\<close> around the fallback takes it
  for a failed fetch: the script ends with \<open>process.exit(1)\<close>.
\<close>

lemma fallback_exits_on_toDate_not_a_function:
  "toDateStrict sampleParse (field d5 ''submittedAt'') = Inr None
   \<and> toDateStrict sampleParse (field d5 ''updatedAt'') = Inr None
   \<and> toDateStrict sampleParse (field d5 ''lastUpdatedAt'') = Inr None
   \<and> toDateStrict sampleParse (field d5 ''createdAt'') = Inr None
   \<and> toDateStrict sampleParse (field d5 ''gameDate'') = Inr None
   \<and> TIME_FIELDS = [''submittedAt'', ''updatedAt'', ''lastUpdatedAt'', ''createdAt'', ''gameDate'']
   \<and> list_all (queryFailsOrEmpty oddStore (w_start window_oct4) (w_end window_oct4)) TIME_FIELDS
   \<and> oddStore (Query ''gameStats'' []) = Inr [d5]
   \<and> clientDate sampleParse sampleToNum (field d5 ''createdAt'') = Inl TypeError
   \<and> selectDocs sampleParse sampleToNum oddStore (w_start window_oct4) (w_end window_oct4)
        TIME_FIELDS = Inl TypeError
   \<and> gameStats_main sampleZones sampleParse sampleToNum sampleFromDate tableDisplay oddStore rejectingUsers
        = Exit 1"
proof -
  have n: "toDateStrict sampleParse (field d5 ''submittedAt'') = Inr None"
      "toDateStrict sampleParse (field d5 ''updatedAt'') = Inr None"
      "toDateStrict sampleParse (field d5 ''lastUpdatedAt'') = Inr None"
      "toDateStrict sampleParse (field d5 ''createdAt'') = Inr None"
      "toDateStrict sampleParse (field d5 ''gameDate'') = Inr None"
      "TIME_FIELDS = [''submittedAt'', ''updatedAt'', ''lastUpdatedAt'', ''createdAt'', ''gameDate'']"
    by (simp_all add: TIME_FIELDS_def d5_def field_def toDateStrict_toDate_not_a_function
          toDateStrict_undefined)
  have q: "list_all (queryFailsOrEmpty oddStore (w_start window_oct4) (w_end window_oct4))
             TIME_FIELDS"
    by (simp add: TIME_FIELDS_def queryFailsOrEmpty_def oddStore_def rangeQuery_def)
  have a: "oddStore (Query ''gameStats'' []) = Inr [d5]"
    by (simp add: oddStore_def)
  have c: "clientDate sampleParse sampleToNum (field d5 ''createdAt'') = Inl TypeError"
    by (simp add: d5_def field_def clientDate_toDate_not_a_function)
  have "scanFields sampleParse sampleToNum (w_start window_oct4) (w_end window_oct4) d5 TIME_FIELDS
          = Inl TypeError"
    by (simp add: TIME_FIELDS_def d5_def field_def clientDate_toDate_not_a_function)
  then have "filterInRange sampleParse sampleToNum (w_start window_oct4) (w_end window_oct4)
               TIME_FIELDS [d5] None = Inl TypeError"
    by simp
  moreover from q have "\<forall>f \<in> set TIME_FIELDS.
                   queryFailsOrEmpty oddStore (w_start window_oct4) (w_end window_oct4) f"
    by (simp add: list_all_iff)
  ultimately have s: "selectDocs sampleParse sampleToNum oddStore (w_start window_oct4)
                     (w_end window_oct4) TIME_FIELDS = Inl TypeError"
    using a by (simp add: selectDocs_Inl_iff)
  then have "gameStats_main sampleZones sampleParse sampleToNum sampleFromDate tableDisplay oddStore
               rejectingUsers = Exit 1"
    by (simp add: gameStats_main_def gameStats_window_oct4 announce_oct4)
  with n q a c s show ?thesis by blast
qed

text \<open>
  On a truthy value whose \<open>toDate\<close>, if truthy, is a function, the conversion of the
  client-side filter returns, and its date is in the window exactly when the value
  normalizes into the window or is an object read by its \<open>seconds\<close> alone into it.
\<close>

lemma inWindow_nullIfInvalid: "inWindow (nullIfInvalid d) s e = inWindow (Some d) s e"
  by (cases d) (simp_all add: nullIfInvalid_def inWindow_def js_ge_def)

lemma inWindow_None: "inWindow None s e = False"
  by (simp add: inWindow_def)

lemma clientDate_agrees:
  assumes "truthy v" and "\<not> toDateNotAFunction v"
  shows "\<exists>dt. clientDate parse toNum v = Inr dt
           \<and> (inWindow dt s e \<longleftrightarrow>
                normalizesInto parse s e v \<or> inWindow (secondsInstant toNum v) s e)"
proof (cases v)
  case (JObj fs)
  show ?thesis
  proof (cases "truthy (field fs ''toDate'')")
    case True
    with assms(2) JObj obtain d where d: "field fs ''toDate'' = JFn d"
      by (cases "field fs ''toDate''") (auto simp: toDateNotAFunction_def)
    then have m: "map_of fs ''toDate'' = Some (JFn d)"
      by (auto simp: field_def split: option.splits)
    show ?thesis using JObj m d
      by (simp add: clientDate_def toDateStrict_def normalizesInto_def secondsInstant_def
            getPropOpt_def callMethod_def isFSTimestampMethod_def field_def inWindow_def)
  next
    case False
    then have ntd: "\<not> truthy (case map_of fs ''toDate'' of None \<Rightarrow> JUndefined | Some v \<Rightarrow> v)"
      by (simp add: field_def)
    then have nf: "typeof (case map_of fs ''toDate'' of None \<Rightarrow> JUndefined | Some v \<Rightarrow> v) \<noteq> ''function''"
      by (cases "map_of fs ''toDate''"; simp; cases "the (map_of fs ''toDate'')"; simp)
    show ?thesis
    proof (cases "typeof (field fs ''seconds'') = ''number''")
      case sn: True
      show ?thesis
      proof (cases "typeof (field fs ''nanoseconds'') = ''number''")
        case True
        then obtain n where n: "field fs ''nanoseconds'' = JNum n"
          by (cases "field fs ''nanoseconds''") auto
        from sn n True ntd nf JObj show ?thesis
          by (auto simp: clientDate_def toDateStrict_def normalizesInto_def secondsInstant_def
                getPropOpt_def isFSTimestampMethod_def isFSTimestampPojo_def field_def
                inWindow_nullIfInvalid inWindow_None ToNumber_def nullish_def Let_def
                split: option.splits)
      next
        case False
        from sn False ntd nf JObj show ?thesis
          by (auto simp: clientDate_def toDateStrict_def normalizesInto_def secondsInstant_def
                getPropOpt_def isFSTimestampMethod_def isFSTimestampPojo_def field_def
                inWindow_None Let_def split: option.splits)
      qed
    next
      case False
      from False ntd nf JObj show ?thesis
        by (auto simp: clientDate_def toDateStrict_def normalizesInto_def secondsInstant_def
              getPropOpt_def isFSTimestampMethod_def isFSTimestampPojo_def field_def
              inWindow_None Let_def split: option.splits)
    qed
  qed
qed (use assms(1) in \<open>auto simp: clientDate_def toDateStrict_def normalizesInto_def
       secondsInstant_def getPropOpt_def isFSTimestampMethod_def isFSTimestampPojo_def
       inWindow_nullIfInvalid inWindow_None split: option.splits\<close>)


lemma noFieldInWindow_iff:
  "noFieldInWindow parse s e cands docs \<longleftrightarrow>
     (\<forall>d \<in> set docs. \<forall>f \<in> set cands. \<not> normalizesInto parse s e (field d f))"
  by (simp add: noFieldInWindow_def list_all_iff)

lemma scanFields_none_in_window:
  assumes "\<forall>f \<in> set cands. \<not> normalizesInto parse s e (field d f)
                            \<and> \<not> inWindow (secondsInstant toNum (field d f)) s e
                            \<and> \<not> toDateNotAFunction (field d f)"
  shows "scanFields parse toNum s e d cands = Inr None"
  unfolding scanFields_None_iff
proof (intro ballI impI)
  fix f assume f: "f \<in> set cands" and t: "truthy (field d f)"
  from assms f have n: "\<not> toDateNotAFunction (field d f)" by blast
  from clientDate_agrees[OF t n, of parse toNum s e] obtain dt where
    dt: "clientDate parse toNum (field d f) = Inr dt"
        "inWindow dt s e \<longleftrightarrow>
           normalizesInto parse s e (field d f) \<or> inWindow (secondsInstant toNum (field d f)) s e"
    by blast
  with assms f have "\<not> inWindow dt s e" by blast
  with dt(1) show "\<exists>dt. clientDate parse toNum (field d f) = Inr dt \<and> \<not> inWindow dt s e"
    by blast
qed

lemma toDateStrict_seconds_only:
  "toDateStrict parse (JObj [(''seconds'', JNum (Fin t))]) = Inr None"
  by (simp add: toDateStrict_def isFSTimestampMethod_def isFSTimestampPojo_def)

lemma normalizesInto_undefined: "\<not> normalizesInto parse s e JUndefined"
  by (simp add: normalizesInto_def toDateStrict_undefined inWindow_None)

lemma noFieldInWindow_seconds_only:
  "noFieldInWindow sampleParse (w_start window_oct4) (w_end window_oct4) TIME_FIELDS [d8, d1]"
  by (simp add: noFieldInWindow_def TIME_FIELDS_def d8_def d1_def field_def
        normalizesInto_undefined)
     (simp add: normalizesInto_def toDateStrict_seconds_only toDateStrict_number inWindow_None
        inWindow_def window_oct4_bounds js_ge_def js_lt_def maxTime_def)

lemma clientDate_seconds_only:
  "clientDate sampleParse sampleToNum (JObj [(''seconds'', JNum (Fin 1759579200))])
     = Inr (Some (DateAt 1759579200000))"
  by (simp add: clientDate_def getPropOpt_def nullish_def ToNumber_def newDate_def
        roundDouble_exact floorQuot_def maxSafe_def maxTime_def)

lemma selectDocs_seconds_only:
  "selectDocs sampleParse sampleToNum secondsStore (w_start window_oct4) (w_end window_oct4)
       TIME_FIELDS
     = Inr (Some ''createdAt'', [d8],
            map (\<lambda>f. rangeQuery f (w_start window_oct4) (w_end window_oct4)) TIME_FIELDS
              @ [Query ''gameStats'' []])"
proof -
  have q: "\<forall>f \<in> set TIME_FIELDS.
             queryFailsOrEmpty secondsStore (w_start window_oct4) (w_end window_oct4) f"
    by (simp add: queryFailsOrEmpty_def secondsStore_def rangeQuery_def)
  have a: "scanFields sampleParse sampleToNum (w_start window_oct4) (w_end window_oct4) d8
             TIME_FIELDS = Inr (Some ''createdAt'')"
    by (simp add: TIME_FIELDS_def d8_def field_def clientDate_seconds_only inWindow_def
          window_oct4_bounds js_ge_def js_lt_def)
  have "filterInRange sampleParse sampleToNum (w_start window_oct4) (w_end window_oct4)
          TIME_FIELDS [d8, d1] None = Inr ([d8], Some ''createdAt'')"
    by (simp add: a scanFields_d1)
  with probeFields_none[OF q] show ?thesis
    by (simp add: selectDocs_def secondsStore_def)
qed

lemma noFieldInWindow_toDate_not_a_function:
  "noFieldInWindow sampleParse (w_start window_oct4) (w_end window_oct4) TIME_FIELDS [d5]"
  by (simp add: noFieldInWindow_def TIME_FIELDS_def d5_def field_def normalizesInto_undefined)
     (simp add: normalizesInto_def toDateStrict_toDate_not_a_function inWindow_None)

text \<open>
  C7, as stated, fails, in two ways. By the conversion that the client-side filter
  applies: it reads an object with a numeric \<open>seconds\<close> also when \<open>nanoseconds\<close> is
  missing, where the normalizer returns \<open>null\<close>. With the collection \<open>[d8, d1]\<close> no
  candidate field normalizes into the window, and the result is \<open>[d8]\<close> with
  \<open>usedField = "createdAt"\<close>, not the whole collection. And by the call of a \<open>toDate\<close>
  that is not a function: with the collection \<open>[d5]\<close> no candidate field normalizes
  into the window, and there is no result, the script ends with \<open>process.exit(1)\<close>.
\<close>

theorem fallback_not_all_counterexample:
  "noFieldInWindow sampleParse (w_start window_oct4) (w_end window_oct4) TIME_FIELDS [d8, d1]
   \<and> list_all (queryFailsOrEmpty secondsStore (w_start window_oct4) (w_end window_oct4))
        TIME_FIELDS
   \<and> secondsStore (Query ''gameStats'' []) = Inr [d8, d1]
   \<and> selectDocs sampleParse sampleToNum secondsStore (w_start window_oct4) (w_end window_oct4)
        TIME_FIELDS
      = Inr (Some ''createdAt'', [d8],
             map (\<lambda>f. rangeQuery f (w_start window_oct4) (w_end window_oct4)) TIME_FIELDS
               @ [Query ''gameStats'' []])
   \<and> noFieldInWindow sampleParse (w_start window_oct4) (w_end window_oct4) TIME_FIELDS [d5]
   \<and> list_all (queryFailsOrEmpty oddStore (w_start window_oct4) (w_end window_oct4)) TIME_FIELDS
   \<and> oddStore (Query ''gameStats'' []) = Inr [d5]
   \<and> selectDocs sampleParse sampleToNum oddStore (w_start window_oct4) (w_end window_oct4)
        TIME_FIELDS = Inl TypeError
   \<and> gameStats_main sampleZones sampleParse sampleToNum sampleFromDate tableDisplay oddStore rejectingUsers
        = Exit 1"
proof -
  have "list_all (queryFailsOrEmpty secondsStore (w_start window_oct4) (w_end window_oct4))
          TIME_FIELDS"
    by (simp add: TIME_FIELDS_def queryFailsOrEmpty_def secondsStore_def rangeQuery_def)
  moreover have "secondsStore (Query ''gameStats'' []) = Inr [d8, d1]"
    by (simp add: secondsStore_def)
  ultimately show ?thesis
    using noFieldInWindow_seconds_only selectDocs_seconds_only
      noFieldInWindow_toDate_not_a_function fallback_exits_on_toDate_not_a_function
    by blast
qed

text \<open>
  C7, amended: when the range query on every candidate rejects or returns no document,
  and the fetch of the whole collection returns documents in which no candidate field
  normalizes to an instant inside the window, none is an object with no truthy \<open>toDate\<close>,
  a numeric \<open>seconds\<close> and a \<open>nanoseconds\<close> that is not a number which
  \<open>seconds * 1000 + floor(Number(nanoseconds ?? 0) / 1000000)\<close> puts inside the window,
  and none is an object with a truthy \<open>toDate\<close> that is not a function, then the
  selection returns the whole collection and \<open>usedField\<close> remains \<open>null\<close> (the report
  says that no usable date field was found); in the script, whose window has been
  computed and announced, the rows of the whole collection are then given to
  \<open>printTable\<close>.
\<close>

theorem fallback_returns_all:
  assumes "\<forall>f \<in> set cands. queryFailsOrEmpty getDocs startTs endTs f"
    and "getDocs (Query ''gameStats'' []) = Inr all"
    and "noFieldInWindow parse startTs endTs cands all"
    and "\<forall>d \<in> set all. \<forall>f \<in> set cands.
           \<not> inWindow (secondsInstant toNum (field d f)) startTs endTs
           \<and> \<not> toDateNotAFunction (field d f)"
  shows "selectDocs parse toNum getDocs startTs endTs cands
           = Inr (None, all,
                  map (\<lambda>f. rangeQuery f startTs endTs) cands @ [Query ''gameStats'' []])
       \<and> (gameStats_dayRangeUTC tzd 2025 10 4 (Some ''America/Indiana/Indianapolis'')
             = Inr \<lparr>w_start = startTs, w_end = endTs\<rparr>
           \<and> announce fromDate \<lparr>w_start = startTs, w_end = endTs\<rparr> = None
           \<and> cands = TIME_FIELDS
           \<longrightarrow> gameStats_main tzd parse toNum fromDate display getDocs getDoc
                 = (case printTable display (buildRows toNum getDoc Map.empty all) of
                      Some e \<Rightarrow> Uncaught e
                    | None \<Rightarrow>
                        Completed \<lparr>rep_usedField = None, rep_docs = all,
                          rep_sent = map (\<lambda>f. rangeQuery f startTs endTs) TIME_FIELDS
                                       @ [Query ''gameStats'' []],
                          rep_rows = buildRows toNum getDoc Map.empty all\<rparr>))"
proof -
  have scan: "\<forall>d \<in> set all. scanFields parse toNum startTs endTs d cands = Inr None"
  proof
    fix d assume d: "d \<in> set all"
    show "scanFields parse toNum startTs endTs d cands = Inr None"
    proof (rule scanFields_none_in_window, rule ballI)
      fix f assume f: "f \<in> set cands"
      from assms(3) d f have "\<not> normalizesInto parse startTs endTs (field d f)"
        by (simp add: noFieldInWindow_iff)
      with assms(4) d f
      show "\<not> normalizesInto parse startTs endTs (field d f)
              \<and> \<not> inWindow (secondsInstant toNum (field d f)) startTs endTs
              \<and> \<not> toDateNotAFunction (field d f)"
        by blast
    qed
  qed
  have s: "selectDocs parse toNum getDocs startTs endTs cands
             = Inr (None, all,
                    map (\<lambda>f. rangeQuery f startTs endTs) cands @ [Query ''gameStats'' []])"
    by (rule selectDocs_fallback_all[OF assms(1,2) scan])
  then show ?thesis
    by (auto simp: gameStats_main_def split: option.splits)
qed

theorem fallback_returns_all_witness:
  "selectDocs sampleParse sampleToNum unindexedStore (w_start window_oct4) (w_end window_oct4)
       TIME_FIELDS
     = Inr (None, [d1, d2, d4],
            map (\<lambda>f. rangeQuery f (w_start window_oct4) (w_end window_oct4)) TIME_FIELDS
              @ [Query ''gameStats'' []])
   \<and> gameStats_main sampleZones sampleParse sampleToNum sampleFromDate tableDisplay unindexedStore rejectingUsers
     = Completed \<lparr>rep_usedField = None, rep_docs = [d1, d2, d4],
         rep_sent = map (\<lambda>f. rangeQuery f (w_start window_oct4) (w_end window_oct4)) TIME_FIELDS
                      @ [Query ''gameStats'' []],
         rep_rows = buildRows sampleToNum rejectingUsers Map.empty [d1, d2, d4]\<rparr>"
proof -
  have h1: "\<forall>f \<in> set TIME_FIELDS.
              queryFailsOrEmpty unindexedStore (w_start window_oct4) (w_end window_oct4) f"
    by (simp add: unindexedStore_range)
  have h2: "unindexedStore (Query ''gameStats'' []) = Inr [d1, d2, d4]"
    by (simp add: unindexedStore_def)
  have h3: "noFieldInWindow sampleParse (w_start window_oct4) (w_end window_oct4) TIME_FIELDS
              [d1, d2, d4]"
    by (simp add: noFieldInWindow_def TIME_FIELDS_def d1_def d2_def d4_def field_def
          normalizesInto_undefined)
       (simp add: normalizesInto_def toDateStrict_number inWindow_def window_oct4_bounds
          js_ge_def js_lt_def maxTime_def)
  have h4: "\<forall>d \<in> set [d1, d2, d4]. \<forall>f \<in> set TIME_FIELDS.
              \<not> inWindow (secondsInstant sampleToNum (field d f))
                    (w_start window_oct4) (w_end window_oct4)
              \<and> \<not> toDateNotAFunction (field d f)"
    by (simp add: TIME_FIELDS_def d1_def d2_def d4_def field_def secondsInstant_def
          toDateNotAFunction_def inWindow_None)
  have e: "\<lparr>w_start = w_start window_oct4, w_end = w_end window_oct4\<rparr> = window_oct4"
    by (simp add: window_oct4_def)
  have w: "gameStats_dayRangeUTC sampleZones 2025 10 4 (Some ''America/Indiana/Indianapolis'')
             = Inr \<lparr>w_start = w_start window_oct4, w_end = w_end window_oct4\<rparr>
           \<and> announce sampleFromDate \<lparr>w_start = w_start window_oct4, w_end = w_end window_oct4\<rparr>
               = None
           \<and> TIME_FIELDS = TIME_FIELDS"
    unfolding e by (simp add: gameStats_window_oct4 announce_oct4)
  note th = fallback_returns_all[OF h1 h2 h3 h4,
      of sampleZones sampleFromDate tableDisplay rejectingUsers]
  from th have "selectDocs sampleParse sampleToNum unindexedStore (w_start window_oct4)
                  (w_end window_oct4) TIME_FIELDS
     = Inr (None, [d1, d2, d4],
            map (\<lambda>f. rangeQuery f (w_start window_oct4) (w_end window_oct4)) TIME_FIELDS
              @ [Query ''gameStats'' []])"
    by blast
  moreover from th w
  have "gameStats_main sampleZones sampleParse sampleToNum sampleFromDate tableDisplay unindexedStore
          rejectingUsers
        = (case printTable tableDisplay
                  (buildRows sampleToNum rejectingUsers Map.empty [d1, d2, d4]) of
             Some e \<Rightarrow> Uncaught e
           | None \<Rightarrow>
               Completed \<lparr>rep_usedField = None, rep_docs = [d1, d2, d4],
                 rep_sent = map (\<lambda>f. rangeQuery f (w_start window_oct4) (w_end window_oct4))
                              TIME_FIELDS @ [Query ''gameStats'' []],
                 rep_rows = buildRows sampleToNum rejectingUsers Map.empty [d1, d2, d4]\<rparr>)"
    by blast
  ultimately show ?thesis
    by (simp only: printTable_unindexed option.case)
qed

text \<open>
  C5, as stated, fails: gameStats-today.ts also calls \<open>process.exit(1)\<close>. With a store
  that rejects every query, no candidate yields a document, the fetch of the whole
  collection rejects, and the \<open>catch\<close> around the fallback ends the process with status 1.
\<close>

theorem gameStats_exit_counterexample:
  "gameStats_main sampleZones sampleParse sampleToNum sampleFromDate tableDisplay rejectingStore rejectingUsers
     = Exit 1"
  by (simp add: gameStats_main_def gameStats_window_oct4 announce_oct4 selectDocs_def TIME_FIELDS_def
        rejectingStore_def Let_def)

lemma getUserEmail_error:
  assumes "truthy playerId" and "emailCache playerId = None" and "getDoc playerId = Inl e"
  shows "getUserEmail getDoc emailCache playerId = (JStr ''(error)'', emailCache)"
  using assms by (simp add: getUserEmail_def)

text \<open>
  C5, amended: \<open>process.exit\<close> is called, with status 1, on two paths only. In
  stats-today.ts, when the range query on \<open>submittedAt\<close> in \<open>guesses\<close> rejects. In
  gameStats-today.ts, when no candidate range query returned a document and the fallback
  (the fetch of the whole collection, or the client-side filter over it) throws. Two
  other failed fetches are handled and do not end the process: a candidate range query
  that rejects is skipped, the loop going on with the next candidate; and a lookup of a
  user's email that rejects gives the placeholder \<open>"(error)"\<close>.
\<close>

theorem exit_paths:
  "(stats_main tzd toNum fromDate ldisplay getDocs getDoc = Exit code \<longleftrightarrow>
      code = 1
      \<and> (\<exists>w e. stats_dayRangeUTC tzd 2025 10 4 (Some ''America/Indiana/Indianapolis'') = Inr w
               \<and> announce fromDate w = None
               \<and> getDocs (Query ''guesses'' [(''submittedAt'', ''>='', w_start w),
                                              (''submittedAt'', ''<'', w_end w)]) = Inl e))
   \<and> (gameStats_main tzd parse toNum fromDate tdisplay getDocs getDoc = Exit code \<longleftrightarrow>
        code = 1
        \<and> (\<exists>w e. gameStats_dayRangeUTC tzd 2025 10 4 (Some ''America/Indiana/Indianapolis'') = Inr w
                 \<and> announce fromDate w = None
                 \<and> (\<forall>f \<in> set TIME_FIELDS. queryFailsOrEmpty getDocs (w_start w) (w_end w) f)
                 \<and> bindE (getDocs (Query ''gameStats'' []))
                      (\<lambda>all. filterInRange parse toNum (w_start w) (w_end w) TIME_FIELDS all None)
                    = Inl e))
   \<and> (getDocs (rangeQuery f startTs endTs) = Inl err
        \<longrightarrow> probeFields getDocs startTs endTs (f # fs)
              = (case probeFields getDocs startTs endTs fs of
                   (u, ds, sent) \<Rightarrow> (u, ds, rangeQuery f startTs endTs # sent)))
   \<and> (truthy playerId \<and> emailCache playerId = None \<and> getDoc playerId = Inl err'
        \<longrightarrow> getUserEmail getDoc emailCache playerId = (JStr ''(error)'', emailCache))"
proof (intro conjI impI)
  show "stats_main tzd toNum fromDate ldisplay getDocs getDoc = Exit code \<longleftrightarrow>
      code = 1
      \<and> (\<exists>w e. stats_dayRangeUTC tzd 2025 10 4 (Some ''America/Indiana/Indianapolis'') = Inr w
               \<and> announce fromDate w = None
               \<and> getDocs (Query ''guesses'' [(''submittedAt'', ''>='', w_start w),
                                              (''submittedAt'', ''<'', w_end w)]) = Inl e)"
    by (auto simp: stats_main_def split: sum.splits option.splits)
next
  have "gameStats_main tzd parse toNum fromDate tdisplay getDocs getDoc = Exit code \<longleftrightarrow>
          code = 1
          \<and> (\<exists>w e. gameStats_dayRangeUTC tzd 2025 10 4 (Some ''America/Indiana/Indianapolis'') = Inr w
                   \<and> announce fromDate w = None
                   \<and> selectDocs parse toNum getDocs (w_start w) (w_end w) TIME_FIELDS = Inl e)"
    by (auto simp: gameStats_main_def split: sum.splits option.splits)
  then show "gameStats_main tzd parse toNum fromDate tdisplay getDocs getDoc = Exit code \<longleftrightarrow>
        code = 1
        \<and> (\<exists>w e. gameStats_dayRangeUTC tzd 2025 10 4 (Some ''America/Indiana/Indianapolis'') = Inr w
                 \<and> announce fromDate w = None
                 \<and> (\<forall>f \<in> set TIME_FIELDS. queryFailsOrEmpty getDocs (w_start w) (w_end w) f)
                 \<and> bindE (getDocs (Query ''gameStats'' []))
                      (\<lambda>all. filterInRange parse toNum (w_start w) (w_end w) TIME_FIELDS all None)
                    = Inl e)"
    by (simp add: selectDocs_Inl_iff)
next
  assume "getDocs (rangeQuery f startTs endTs) = Inl err"
  then show "probeFields getDocs startTs endTs (f # fs)
              = (case probeFields getDocs startTs endTs fs of
                   (u, ds, sent) \<Rightarrow> (u, ds, rangeQuery f startTs endTs # sent))"
    by (simp add: Let_def split: prod.splits)
next
  assume "truthy playerId \<and> emailCache playerId = None \<and> getDoc playerId = Inl err'"
  then show "getUserEmail getDoc emailCache playerId = (JStr ''(error)'', emailCache)"
    by (simp add: getUserEmail_error)
qed

theorem exit_paths_witness:
  "stats_main sampleZones sampleToNum sampleFromDate listDisplay unindexedStore rejectingUsers = Exit 1
   \<and> gameStats_main sampleZones sampleParse sampleToNum sampleFromDate tableDisplay unindexedStore rejectingUsers
       \<noteq> Exit 1
   \<and> probeFields unindexedStore (w_start window_oct4) (w_end window_oct4) [''createdAt'', ''gameDate'']
       = (case probeFields unindexedStore (w_start window_oct4) (w_end window_oct4) [''gameDate''] of
            (u, ds, sent) \<Rightarrow>
              (u, ds, rangeQuery ''createdAt'' (w_start window_oct4) (w_end window_oct4) # sent))
   \<and> getUserEmail rejectingUsers Map.empty (JStr ''p4'') = (JStr ''(error)'', Map.empty)"
proof -
  have w: "stats_dayRangeUTC sampleZones 2025 10 4 (Some ''America/Indiana/Indianapolis'')
             = Inr window_oct4"
    by (simp add: stats_is_gameStats gameStats_window_oct4)
  have a: "\<exists>w e. stats_dayRangeUTC sampleZones 2025 10 4 (Some ''America/Indiana/Indianapolis'')
                    = Inr w
                \<and> announce sampleFromDate w = None
                \<and> unindexedStore (Query ''guesses''
                     [(''submittedAt'', ''>='', w_start w), (''submittedAt'', ''<'', w_end w)])
                    = Inl e"
    by (simp add: w announce_oct4 unindexedStore_def)
  have "filterInRange sampleParse sampleToNum (w_start window_oct4) (w_end window_oct4)
          TIME_FIELDS [d1, d2, d4] None = Inr ([], None)"
    by (rule filterInRange_none) (simp add: scanFields_d1 scanFields_d2 scanFields_d4)
  then have b: "\<not> (\<exists>w e. gameStats_dayRangeUTC sampleZones 2025 10 4
                            (Some ''America/Indiana/Indianapolis'') = Inr w
                  \<and> announce sampleFromDate w = None
                  \<and> (\<forall>f \<in> set TIME_FIELDS.
                        queryFailsOrEmpty unindexedStore (w_start w) (w_end w) f)
                  \<and> bindE (unindexedStore (Query ''gameStats'' []))
                      (\<lambda>all. filterInRange sampleParse sampleToNum (w_start w) (w_end w)
                                TIME_FIELDS all None) = Inl e)"
    by (simp add: gameStats_window_oct4 unindexedStore_def)
  have c: "unindexedStore (rangeQuery ''createdAt'' (w_start window_oct4) (w_end window_oct4))
             = Inl (FirestoreError ''The query requires an index'')"
    by (simp add: unindexedStore_def rangeQuery_def)
  have d: "truthy (JStr ''p4'') \<and> Map.empty (JStr ''p4'') = None
             \<and> rejectingUsers (JStr ''p4'') = Inl (FirestoreError ''unavailable'')"
    by (simp add: rejectingUsers_def)
  note th = exit_paths[where tzd = sampleZones and toNum = sampleToNum
      and fromDate = sampleFromDate and ldisplay = listDisplay
      and getDocs = unindexedStore and getDoc = rejectingUsers and code = 1
      and parse = sampleParse and tdisplay = tableDisplay and f = "''createdAt''"
      and fs = "[''gameDate'']" and startTs = "w_start window_oct4"
      and endTs = "w_end window_oct4" and err = "FirestoreError ''The query requires an index''"
      and playerId = "JStr ''p4''" and emailCache = Map.empty
      and err' = "FirestoreError ''unavailable''"]
  from th a have "stats_main sampleZones sampleToNum sampleFromDate listDisplay unindexedStore rejectingUsers
                    = Exit 1"
    by blast
  moreover from th b
  have "gameStats_main sampleZones sampleParse sampleToNum sampleFromDate tableDisplay unindexedStore
          rejectingUsers \<noteq> Exit 1"
    by blast
  moreover from th c
  have "probeFields unindexedStore (w_start window_oct4) (w_end window_oct4)
          [''createdAt'', ''gameDate'']
       = (case probeFields unindexedStore (w_start window_oct4) (w_end window_oct4) [''gameDate''] of
            (u, ds, sent) \<Rightarrow>
              (u, ds, rangeQuery ''createdAt'' (w_start window_oct4) (w_end window_oct4) # sent))"
    by blast
  moreover from th d
  have "getUserEmail rejectingUsers Map.empty (JStr ''p4'') = (JStr ''(error)'', Map.empty)"
    by blast
  ultimately show ?thesis by blast
qed

text \<open>
  A lookup of a user's email that rejects gives the placeholder \<open>"(error)"\<close>, and the
  report goes on: the two guesses are counted under it, one of them correct.
\<close>

lemma stats_main_degrades:
  "stats_main sampleZones sampleToNum sampleFromDate listDisplay guessStore rejectingUsers
     = Completed [(JStr ''(error)'', (2, 1))]"
proof -
  have e: "\<And>cache. cache (JStr ''p1'') = None \<Longrightarrow>
             getUserEmail rejectingUsers cache (JStr ''p1'') = (JStr ''(error)'', cache)"
    by (rule getUserEmail_error) (simp_all add: rejectingUsers_def)
  have "aggregate sampleToNum rejectingUsers Map.empty [] [g1, g2]
          = [(JStr ''(error)'', (2, 1))]"
    by (simp add: g1_def g2_def field_def e nullish_def ToNumber_def numeral_2_eq_2)
  then show ?thesis
    by (simp add: stats_main_def stats_is_gameStats gameStats_window_oct4 announce_oct4 guessStore_def
          sortAndPrint_def listDisplay_def)
qed

text \<open>
  What no handler catches ends the script without a call of \<open>process.exit\<close>: the
  exception of \<open>dayRangeUTC\<close> (a \<open>RangeError\<close> on an unknown time zone), one thrown
  while the window is announced, and one thrown while the rows are sorted and printed. A document whose \<open>email\<close> is a number gives
  a row that \<open>printTable\<close> cannot pad.
\<close>

lemma uncaught_dayRangeUTC:
  assumes "gameStats_dayRangeUTC tzd 2025 10 4 (Some ''America/Indiana/Indianapolis'') = Inl e"
  shows "gameStats_main tzd parse toNum fromDate tdisplay getDocs getDoc = Uncaught e"
    and "stats_main tzd toNum fromDate ldisplay getDocs getDoc = Uncaught e"
  using assms by (simp_all add: gameStats_main_def stats_main_def stats_is_gameStats)

lemma uncaught_announce:
  assumes "gameStats_dayRangeUTC tzd 2025 10 4 (Some ''America/Indiana/Indianapolis'') = Inr w"
    and "announce fromDate w = Some e"
  shows "gameStats_main tzd parse toNum fromDate tdisplay getDocs getDoc = Uncaught e"
    and "stats_main tzd toNum fromDate ldisplay getDocs getDoc = Uncaught e"
  using assms by (simp_all add: gameStats_main_def stats_main_def stats_is_gameStats)

lemma uncaught_printTable:
  "gameStats_main sampleZones sampleParse sampleToNum sampleFromDate tableDisplay numericEmailStore rejectingUsers
     = Uncaught TypeError"
proof -
  have "selectDocs sampleParse sampleToNum numericEmailStore (w_start window_oct4)
          (w_end window_oct4) TIME_FIELDS
        = Inr (Some ''submittedAt'', [d6],
               [rangeQuery ''submittedAt'' (w_start window_oct4) (w_end window_oct4)])"
    by (simp add: selectDocs_def TIME_FIELDS_def numericEmailStore_def Let_def)
  moreover have "map row_email (buildRows sampleToNum rejectingUsers Map.empty [d6])
                   = [JNum (Fin 7)]"
    by (simp add: d6_def field_def nullish_def)
  then have "printTable tableDisplay (buildRows sampleToNum rejectingUsers Map.empty [d6])
               = Some TypeError"
    unfolding printTable_tableDisplay by simp
  ultimately show ?thesis
    by (simp add: gameStats_main_def gameStats_window_oct4 announce_oct4)
qed

end
